theory Spec2Isabelle
  imports Main "HOL-Library.AList"
begin

section \<open>JSON values and JavaScript objects\<close>

text \<open>
  Request bodies, custom fields and the payload of every response envelope are JSON.
  An object is the list of its own properties in enumeration order: the array indices
  (canonical decimal strings below \<open>2^32 - 1\<close>) in ascending order first, then the other
  keys in the order of their creation. JavaScript strings are modelled as \<open>string\<close>, one
  \<open>char\<close> for each code unit that \<^verbatim>\<open>length\<close> counts.
\<close>

datatype json =
    JNull
  | JBool bool
  | JNum int
  | JStr string
  | JArr "json list"
  | JObj "(string \<times> json) list"

type_synonym object = "(string \<times> json) list"

text \<open>\<^verbatim>\<open>obj.k = v\<close> for a property name \<open>k\<close> written in the source; none of them is an
  array index or \<^verbatim>\<open>__proto__\<close>. An existing property keeps its position, a new one is
  appended.\<close>

definition set_prop :: "string \<Rightarrow> json \<Rightarrow> object \<Rightarrow> object" where
  "set_prop k v obj = AList.update k v obj"

text \<open>Array indices among the keys.\<close>

definition index_value :: "string \<Rightarrow> nat" where
  "index_value k = foldl (\<lambda>n c. 10 * n + (of_char c - 48)) 0 k"

definition is_array_index :: "string \<Rightarrow> bool" where
  "is_array_index k =
     (k \<noteq> [] \<and> list_all (\<lambda>c. c \<in> set ''0123456789'') k \<and>
      (k = ''0'' \<or> hd k \<noteq> CHR ''0'') \<and> index_value k < 4294967295)"

text \<open>A new array index goes before the first key that is not a smaller array index.\<close>

fun insert_index :: "string \<Rightarrow> json \<Rightarrow> object \<Rightarrow> object" where
  "insert_index k v [] = [(k, v)]"
| "insert_index k v ((k', v') # rest) =
     (if is_array_index k' \<and> index_value k' < index_value k
      then (k', v') # insert_index k v rest
      else (k, v) # (k', v') # rest)"

text \<open>\<^verbatim>\<open>target[k] = v\<close> for a key that comes from the caller, on an object whose
  prototype chain ends in \<^verbatim>\<open>Object.prototype\<close>. The key \<^verbatim>\<open>__proto__\<close> reaches the
  inherited setter: the prototype may change, no own property is created, and the
  serialised object is the same. An existing property is overwritten in place; a new
  array index is inserted in order; any other new key is appended.\<close>

definition assign_prop :: "string \<Rightarrow> json \<Rightarrow> object \<Rightarrow> object" where
  "assign_prop k v obj =
     (if k = ''__proto__'' then obj
      else if k \<in> fst ` set obj then AList.update k v obj
      else if is_array_index k then insert_index k v obj
      else obj @ [(k, v)])"

text \<open>\<^verbatim>\<open>Object.assign(target, source)\<close>: every own property of the source, in
  enumeration order, is assigned to the target.\<close>

definition Object_assign :: "object \<Rightarrow> object \<Rightarrow> object" where
  "Object_assign target source = fold (\<lambda>(k, v) t. assign_prop k v t) source target"

text \<open>An object literal handed to \<^verbatim>\<open>JSON.stringify\<close>: a property whose value is
  \<^verbatim>\<open>undefined\<close> (here \<open>None\<close>) is left out.\<close>

definition literal :: "(string \<times> json option) list \<Rightarrow> json" where
  "literal kvs = JObj (List.map_filter (\<lambda>(k, v). map_option (Pair k) v) kvs)"

text \<open>\<^verbatim>\<open>xs.join(sep)\<close> on an array of strings.\<close>

fun join :: "string \<Rightarrow> string list \<Rightarrow> string" where
  "join sep [] = []"
| "join sep [x] = x"
| "join sep (x # y # ys) = x @ sep @ join sep (y # ys)"

text \<open>\<^verbatim>\<open>s.split(c)\<close> for a one-character separator: the reading of a joined string,
  used to say which list a \<^verbatim>\<open>fields\<close> parameter carries.\<close>

fun split_on :: "char \<Rightarrow> string \<Rightarrow> string list" where
  "split_on c [] = [[]]"
| "split_on c (x # xs) =
     (if x = c then [] # split_on c xs
      else (case split_on c xs of [] \<Rightarrow> [[x]] | w # ws \<Rightarrow> (x # w) # ws))"

text \<open>A non-negative integer inside a template literal: its decimal digits
  (\<open>digit\<close> is applied below 10 only).\<close>

definition digit :: "nat \<Rightarrow> char" where
  "digit d = ''0123456789'' ! d"

function string_of_nat :: "nat \<Rightarrow> string" where
  "string_of_nat n = (if n < 10 then [digit n] else string_of_nat (n div 10) @ [digit (n mod 10)])"
  by pat_completeness auto
termination
  by (relation "measure id") auto

declare string_of_nat.simps [simp del]

section \<open>Jira API types (types/jira.ts)\<close>

text \<open>Of each interface the model keeps the properties that the client and the
  handlers read. A property declared \<^verbatim>\<open>T | null\<close> and optional has three
  states.\<close>

datatype 'a nullable = Undefined | Null | Defined 'a

record JiraStatusCategory =
  category_name :: string

record JiraStatus =
  status_id :: string
  status_name :: string
  statusCategory :: JiraStatusCategory

record JiraIssueType =
  issuetype_name :: string
  subtask :: bool

record JiraProject =
  project_key :: string
  project_name :: string

record JiraPriority =
  priority_name :: string

record JiraUser =
  displayName :: string
  emailAddress :: "string option"

record JiraComponent =
  component_name :: string

record JiraVersion =
  version_name :: string

record JiraIssueFields =
  summary :: string
  description :: "string nullable"
  issuetype :: JiraIssueType
  project :: JiraProject
  status :: JiraStatus
  priority :: "JiraPriority option"
  assignee :: "JiraUser nullable"
  reporter :: "JiraUser option"
  created :: string
  updated :: string
  resolutiondate :: "string nullable"
  labels :: "string list option"
  components :: "JiraComponent list option"
  fixVersions :: "JiraVersion list option"

record JiraIssue =
  issue_id :: string
  issue_key :: string
  issue_self :: string
  issue_fields :: JiraIssueFields

record JiraTransition =
  transition_id :: string
  transition_name :: string
  to :: JiraStatus

record Visibility =
  visibility_type :: string
  visibility_value :: string

record JiraComment =
  comment_id :: string
  author :: JiraUser
  comment_body :: string
  comment_created :: string
  comment_updated :: string
  comment_visibility :: "Visibility option"

record JiraCommentList =
  comments :: "JiraComment list"

record JiraSearchResult =
  issues :: "JiraIssue list"
  total :: "int option"
  result_nextPageToken :: "string option"
  isLast :: "bool option"

text \<open>The answer to \<^verbatim>\<open>POST /issue\<close>: \<^verbatim>\<open>{ id, key, self }\<close>.\<close>

record CreatedIssue =
  created_id :: string
  created_key :: string
  created_self :: string

record TransitionList =
  transitions :: "JiraTransition list"

record JiraErrorResponse =
  errorMessages :: "string list option"
  errors :: "(string \<times> string) list option"

text \<open>Request bodies. \<^verbatim>\<open>fields\<close> is an open object (\<^verbatim>\<open>[key: string]: any\<close>).\<close>

record JiraCreateIssueRequest =
  create_fields :: object

record JiraUpdateIssueRequest =
  update_fields :: "object option"

record JiraTransitionRequest =
  transition :: string
  transition_fields :: "object option"

datatype VisibilityType = group | role

record JiraAddCommentRequest =
  request_body :: string
  request_visibility :: "(VisibilityType \<times> string) option"

section \<open>The HTTP layer (axios)\<close>

datatype http_method = GET | POST | PUT

record http_request =
  request_method :: http_method
  url :: string
  headers :: "(string \<times> string) list"
  timeout :: nat
  params :: object
  data :: "json option"

text \<open>An \<^verbatim>\<open>AxiosError\<close>: \<open>response\<close> is absent when no answer arrived (network
  failure, timeout); the body is \<open>None\<close> when it is empty (falsy).\<close>

record AxiosResponse =
  response_status :: nat
  response_data :: "JiraErrorResponse option"

record AxiosError =
  message :: string
  response :: "AxiosResponse option"

text \<open>What a \<^verbatim>\<open>throw\<close> carries: an axios error, or a plain \<^verbatim>\<open>Error\<close> with its
  message.\<close>

datatype thrown = AxiosErr AxiosError | Error string

text \<open>The remote side. An endpoint answers a request, given the requests sent before
  it, with the payload the call site declares or with an axios error (any non-2xx
  status, or no answer). There is one endpoint for each call site of the client.\<close>

type_synonym 'a endpoint = "http_request list \<Rightarrow> http_request \<Rightarrow> AxiosError + 'a"

record net =
  search_jql :: "JiraSearchResult endpoint"
  issue_get :: "JiraIssue endpoint"
  issue_post :: "CreatedIssue endpoint"
  issue_put :: "unit endpoint"
  transitions_get :: "TransitionList endpoint"
  transitions_post :: "unit endpoint"
  comment_get :: "JiraCommentList endpoint"
  comment_post :: "JiraComment endpoint"

section \<open>JiraClient (jira-client.ts)\<close>

record AxiosInstance =
  baseURL :: string
  default_headers :: "(string \<times> string) list"
  default_timeout :: nat

record JiraClient =
  client :: AxiosInstance
  baseUrl :: string

text \<open>The constructor. \<open>base64\<close> stands for \<^verbatim>\<open>Buffer.from(s).toString('base64')\<close>
  of the runtime.\<close>

definition strip_trailing_slash :: "string \<Rightarrow> string" where
  "strip_trailing_slash u = (if u \<noteq> [] \<and> last u = CHR ''/'' then butlast u else u)"

definition new_JiraClient :: "(string \<Rightarrow> string) \<Rightarrow> string \<Rightarrow> string \<Rightarrow> string \<Rightarrow> JiraClient" where
  "new_JiraClient base64 baseUrl0 username apiToken =
     (let b = strip_trailing_slash baseUrl0;
          auth = base64 (username @ '':'' @ apiToken)
      in \<lparr> client = \<lparr> baseURL = b @ ''/rest/api/3'',
                       default_headers = [(''Authorization'', ''Basic '' @ auth),
                                          (''Content-Type'', ''application/json''),
                                          (''Accept'', ''application/json'')],
                       default_timeout = 30000 \<rparr>,
           baseUrl = b \<rparr>)"

text \<open>The state of the process: the module-level \<^verbatim>\<open>jiraClient\<close> and, as a record of
  what reached the network, the requests sent so far.\<close>

record state =
  jiraClient :: JiraClient
  sent :: "http_request list"

type_synonym 'a io = "state \<Rightarrow> (thrown + 'a) \<times> state"

definition return :: "'a \<Rightarrow> 'a io" where
  "return x s = (Inr x, s)"

definition throw :: "thrown \<Rightarrow> 'a io" where
  "throw e s = (Inl e, s)"

text \<open>\<^verbatim>\<open>const x = await m; f(x)\<close>: a rejected promise skips the rest.\<close>

definition await :: "'a io \<Rightarrow> ('a \<Rightarrow> 'b io) \<Rightarrow> 'b io" where
  "await m f s = (case m s of (Inl e, s') \<Rightarrow> (Inl e, s') | (Inr x, s') \<Rightarrow> f x s')"

text \<open>\<^verbatim>\<open>this.client.get/post/put(path, ...)\<close>: one request leaves the process.\<close>

definition build_request ::
  "JiraClient \<Rightarrow> http_method \<Rightarrow> string \<Rightarrow> object \<Rightarrow> json option \<Rightarrow> http_request" where
  "build_request c m path ps d =
     \<lparr> request_method = m, url = baseURL (client c) @ path, headers = default_headers (client c),
       timeout = default_timeout (client c), params = ps, data = d \<rparr>"

definition axios_request ::
  "'a endpoint \<Rightarrow> http_method \<Rightarrow> string \<Rightarrow> object \<Rightarrow> json option \<Rightarrow> 'a io" where
  "axios_request ep m path ps d s =
     (let req = build_request (jiraClient s) m path ps d;
          s' = s\<lparr> sent := sent s @ [req] \<rparr>
      in case ep (sent s) req of
           Inl e \<Rightarrow> (Inl (AxiosErr e), s')
         | Inr payload \<Rightarrow> (Inr payload, s'))"

text \<open>\<^verbatim>\<open>handleError\<close> never returns: its value is what it throws.\<close>

definition error_messages :: "JiraErrorResponse \<Rightarrow> string list" where
  "error_messages errorData =
     (case errorMessages errorData of None \<Rightarrow> [] | Some ms \<Rightarrow> ms) @
     map (\<lambda>(key, v). key @ '': '' @ v) (case errors errorData of None \<Rightarrow> [] | Some es \<Rightarrow> es)"

definition handleError :: "thrown \<Rightarrow> thrown" where
  "handleError error =
     (case error of
        AxiosErr axiosError \<Rightarrow>
          (case response axiosError of
             Some resp \<Rightarrow>
               (case response_data resp of
                  Some errorData \<Rightarrow>
                    Error (''Jira API Error ('' @ string_of_nat (response_status resp) @ ''): '' @
                           join '', '' (error_messages errorData))
                | None \<Rightarrow> Error (''Jira API Error: '' @ message axiosError))
           | None \<Rightarrow> Error (''Jira API Error: '' @ message axiosError))
      | _ \<Rightarrow> error)"

text \<open>\<^verbatim>\<open>try { ... } catch (error) { this.handleError(error); }\<close>\<close>

definition try_catch :: "'a io \<Rightarrow> 'a io" where
  "try_catch m s = (case m s of (Inl e, s') \<Rightarrow> (Inl (handleError e), s') | (Inr x, s') \<Rightarrow> (Inr x, s'))"

definition default_search_fields :: string where
  "default_search_fields = ''key,summary,status,issuetype,assignee,reporter,created,updated,priority,project''"

definition search_params ::
  "string \<Rightarrow> int option \<Rightarrow> string option \<Rightarrow> string list option \<Rightarrow> object" where
  "search_params jql maxResults nextPageToken flds =
     (let ps = [(''jql'', JStr jql),
                (''maxResults'', JNum (case maxResults of None \<Rightarrow> 50 | Some n \<Rightarrow> n))];
          ps = (case nextPageToken of
                  Some t \<Rightarrow> if t \<noteq> [] then set_prop ''nextPageToken'' (JStr t) ps else ps
                | None \<Rightarrow> ps);
          ps = (case flds of
                  Some fs \<Rightarrow>
                    if length fs > 0 then set_prop ''fields'' (JStr (join '','' fs)) ps
                    else set_prop ''fields'' (JStr default_search_fields) ps
                | None \<Rightarrow> set_prop ''fields'' (JStr default_search_fields) ps)
      in ps)"

definition searchIssues ::
  "net \<Rightarrow> string \<Rightarrow> int option \<Rightarrow> string option \<Rightarrow> string list option \<Rightarrow> JiraSearchResult io" where
  "searchIssues nt jql maxResults nextPageToken flds =
     try_catch
       (axios_request (search_jql nt) GET ''/search/jql''
          (search_params jql maxResults nextPageToken flds) None)"

definition issue_params :: "string list option \<Rightarrow> object" where
  "issue_params flds = (case flds of Some fs \<Rightarrow> [(''fields'', JStr (join '','' fs))] | None \<Rightarrow> [])"

definition getIssue :: "net \<Rightarrow> string \<Rightarrow> string list option \<Rightarrow> JiraIssue io" where
  "getIssue nt issueKey flds =
     try_catch (axios_request (issue_get nt) GET (''/issue/'' @ issueKey) (issue_params flds) None)"

definition createIssue :: "net \<Rightarrow> JiraCreateIssueRequest \<Rightarrow> JiraIssue io" where
  "createIssue nt request =
     try_catch
       (await (axios_request (issue_post nt) POST ''/issue'' []
                 (Some (JObj [(''fields'', JObj (create_fields request))])))
          (\<lambda>resp. getIssue nt (created_key resp) None))"

definition updateIssue :: "net \<Rightarrow> string \<Rightarrow> JiraUpdateIssueRequest \<Rightarrow> unit io" where
  "updateIssue nt issueKey request =
     try_catch
       (axios_request (issue_put nt) PUT (''/issue/'' @ issueKey) []
          (Some (literal [(''fields'', map_option JObj (update_fields request))])))"

definition getTransitions :: "net \<Rightarrow> string \<Rightarrow> JiraTransition list io" where
  "getTransitions nt issueKey =
     try_catch
       (await (axios_request (transitions_get nt) GET (''/issue/'' @ issueKey @ ''/transitions'') [] None)
          (\<lambda>resp. return (transitions resp)))"

definition transition_request_json :: "JiraTransitionRequest \<Rightarrow> json" where
  "transition_request_json request =
     literal [(''transition'', Some (JObj [(''id'', JStr (transition request))])),
              (''fields'', map_option JObj (transition_fields request))]"

definition transitionIssue :: "net \<Rightarrow> string \<Rightarrow> JiraTransitionRequest \<Rightarrow> unit io" where
  "transitionIssue nt issueKey request =
     try_catch
       (axios_request (transitions_post nt) POST (''/issue/'' @ issueKey @ ''/transitions'') []
          (Some (transition_request_json request)))"

definition getComments :: "net \<Rightarrow> string \<Rightarrow> JiraComment list io" where
  "getComments nt issueKey =
     try_catch
       (await (axios_request (comment_get nt) GET (''/issue/'' @ issueKey @ ''/comment'') [] None)
          (\<lambda>resp. return (comments resp)))"

definition visibility_name :: "VisibilityType \<Rightarrow> string" where
  "visibility_name t = (case t of group \<Rightarrow> ''group'' | role \<Rightarrow> ''role'')"

definition comment_request_json :: "JiraAddCommentRequest \<Rightarrow> json" where
  "comment_request_json request =
     literal [(''body'', Some (JStr (request_body request))),
              (''visibility'',
               map_option (\<lambda>(t, v). JObj [(''type'', JStr (visibility_name t)), (''value'', JStr v)])
                 (request_visibility request))]"

definition addComment :: "net \<Rightarrow> string \<Rightarrow> JiraAddCommentRequest \<Rightarrow> JiraComment io" where
  "addComment nt issueKey request =
     try_catch
       (axios_request (comment_post nt) POST (''/issue/'' @ issueKey @ ''/comment'') []
          (Some (comment_request_json request)))"

section \<open>Tool handlers (tools/*.ts)\<close>

text \<open>The envelope every tool returns:
  \<^verbatim>\<open>{ content: [{ type: 'text', text: JSON.stringify(v, null, 2) }], isError? }\<close>.
  The text is kept as the value it serialises.\<close>

datatype serialized = JSON_stringify json

record TextContent =
  content_type :: string
  content_text :: serialized

record ToolResult =
  content :: "TextContent list"
  isError :: "bool option"

definition text_result :: "json \<Rightarrow> ToolResult" where
  "text_result v = \<lparr> content = [\<lparr> content_type = ''text'', content_text = JSON_stringify v \<rparr>], isError = None \<rparr>"

subsection \<open>search-issues.ts\<close>

record SearchIssuesArgs =
  jql :: string
  maxResults :: "int option"
  nextPageToken :: "string option"
  search_fields :: "string list option"

definition search_issue_json :: "JiraIssue \<Rightarrow> json" where
  "search_issue_json issue =
     (let f = issue_fields issue in
      literal [(''key'', Some (JStr (issue_key issue))),
               (''summary'', Some (JStr (summary f))),
               (''status'', Some (JStr (status_name (status f)))),
               (''issueType'', Some (JStr (issuetype_name (issuetype f)))),
               (''priority'', map_option (\<lambda>p. JStr (priority_name p)) (priority f)),
               (''assignee'', (case assignee f of Defined u \<Rightarrow> Some (JStr (displayName u)) | _ \<Rightarrow> None)),
               (''created'', Some (JStr (created f))),
               (''updated'', Some (JStr (updated f)))])"

definition search_response :: "JiraSearchResult \<Rightarrow> object" where
  "search_response result =
     (let response = [(''issueCount'', JNum (int (length (issues result)))),
                      (''issues'', JArr (map search_issue_json (issues result)))];
          response = (case total result of
                        Some t \<Rightarrow> set_prop ''total'' (JNum t) response
                      | None \<Rightarrow> response)
      in case result_nextPageToken result of
           Some t \<Rightarrow>
             if t \<noteq> [] then
               set_prop ''hasMoreResults'' (JBool True) (set_prop ''nextPageToken'' (JStr t) response)
             else (case isLast result of
                     Some b \<Rightarrow> set_prop ''hasMoreResults'' (JBool (\<not> b)) (set_prop ''isLast'' (JBool b) response)
                   | None \<Rightarrow> response)
         | None \<Rightarrow>
             (case isLast result of
                Some b \<Rightarrow> set_prop ''hasMoreResults'' (JBool (\<not> b)) (set_prop ''isLast'' (JBool b) response)
              | None \<Rightarrow> response))"

definition handleSearchIssues :: "net \<Rightarrow> SearchIssuesArgs \<Rightarrow> ToolResult io" where
  "handleSearchIssues nt args =
     await (searchIssues nt (jql args) (maxResults args) (nextPageToken args) (search_fields args))
       (\<lambda>result. return (text_result (JObj (search_response result))))"

subsection \<open>get-issue.ts\<close>

record IssueKeyArgs =
  issueKey :: string

record GetIssueArgs = IssueKeyArgs +
  get_fields :: "string list option"

definition nullable_json :: "('a \<Rightarrow> json) \<Rightarrow> 'a nullable \<Rightarrow> json option" where
  "nullable_json f v = (case v of Undefined \<Rightarrow> None | Null \<Rightarrow> Some JNull | Defined x \<Rightarrow> Some (f x))"

definition user_json :: "JiraUser \<Rightarrow> json" where
  "user_json u = literal [(''displayName'', Some (JStr (displayName u))),
                          (''emailAddress'', map_option JStr (emailAddress u))]"

definition get_issue_json :: "JiraIssue \<Rightarrow> json" where
  "get_issue_json issue =
     (let f = issue_fields issue in
      literal
        [(''key'', Some (JStr (issue_key issue))),
         (''id'', Some (JStr (issue_id issue))),
         (''self'', Some (JStr (issue_self issue))),
         (''fields'', Some (literal
            [(''summary'', Some (JStr (summary f))),
             (''description'', nullable_json JStr (description f)),
             (''status'', Some (JObj [(''name'', JStr (status_name (status f))),
                                      (''category'', JStr (category_name (statusCategory (status f))))])),
             (''issueType'', Some (JObj [(''name'', JStr (issuetype_name (issuetype f))),
                                         (''subtask'', JBool (subtask (issuetype f)))])),
             (''project'', Some (JObj [(''key'', JStr (project_key (project f))),
                                       (''name'', JStr (project_name (project f)))])),
             (''priority'', Some (case priority f of
                                    Some p \<Rightarrow> JObj [(''name'', JStr (priority_name p))]
                                  | None \<Rightarrow> JNull)),
             (''assignee'', Some (case assignee f of Defined u \<Rightarrow> user_json u | _ \<Rightarrow> JNull)),
             (''reporter'', Some (case reporter f of Some u \<Rightarrow> user_json u | None \<Rightarrow> JNull)),
             (''created'', Some (JStr (created f))),
             (''updated'', Some (JStr (updated f))),
             (''resolutiondate'', nullable_json JStr (resolutiondate f)),
             (''labels'', map_option (\<lambda>ls. JArr (map JStr ls)) (labels f)),
             (''components'', map_option (\<lambda>cs. JArr (map (\<lambda>c. JStr (component_name c)) cs)) (components f)),
             (''fixVersions'', map_option (\<lambda>vs. JArr (map (\<lambda>v. JStr (version_name v)) vs)) (fixVersions f))]))])"

definition handleGetIssue :: "net \<Rightarrow> GetIssueArgs \<Rightarrow> ToolResult io" where
  "handleGetIssue nt args =
     await (getIssue nt (issueKey args) (get_fields args))
       (\<lambda>issue. return (text_result (get_issue_json issue)))"

subsection \<open>create-issue.ts\<close>

record CreateIssueArgs =
  projectKey :: string
  issueType :: string
  summary_arg :: string
  description_arg :: "string option"
  priority_arg :: "string option"
  assignee_arg :: "string option"
  labels_arg :: "string list option"
  components_arg :: "string list option"
  customFields :: "object option"

text \<open>The fields built from the typed arguments, before \<^verbatim>\<open>customFields\<close> is
  merged.\<close>

definition builtin_fields :: "CreateIssueArgs \<Rightarrow> object" where
  "builtin_fields args =
     (let fs = [(''project'', JObj [(''key'', JStr (projectKey args))]),
                (''summary'', JStr (summary_arg args)),
                (''issuetype'', JObj [(''name'', JStr (issueType args))])];
          fs = (case description_arg args of
                  Some d \<Rightarrow> if d \<noteq> [] then set_prop ''description'' (JStr d) fs else fs
                | None \<Rightarrow> fs);
          fs = (case priority_arg args of
                  Some p \<Rightarrow> if p \<noteq> [] then set_prop ''priority'' (JObj [(''name'', JStr p)]) fs else fs
                | None \<Rightarrow> fs);
          fs = (case assignee_arg args of
                  Some a \<Rightarrow>
                    if a \<noteq> [] then
                      set_prop ''assignee''
                        (if CHR ''@'' \<in> set a \<or> length a > 20
                         then JObj [(''accountId'', JStr a)]
                         else JObj [(''name'', JStr a)]) fs
                    else fs
                | None \<Rightarrow> fs);
          fs = (case labels_arg args of
                  Some ls \<Rightarrow> if length ls > 0 then set_prop ''labels'' (JArr (map JStr ls)) fs else fs
                | None \<Rightarrow> fs);
          fs = (case components_arg args of
                  Some cs \<Rightarrow>
                    if length cs > 0
                    then set_prop ''components'' (JArr (map (\<lambda>name. JObj [(''name'', JStr name)]) cs)) fs
                    else fs
                | None \<Rightarrow> fs)
      in fs)"

definition create_request :: "CreateIssueArgs \<Rightarrow> JiraCreateIssueRequest" where
  "create_request args =
     \<lparr> create_fields = (case customFields args of
                          Some cf \<Rightarrow> Object_assign (builtin_fields args) cf
                        | None \<Rightarrow> builtin_fields args) \<rparr>"

definition created_issue_json :: "JiraIssue \<Rightarrow> json" where
  "created_issue_json issue =
     JObj [(''success'', JBool True),
           (''issue'', JObj [(''key'', JStr (issue_key issue)),
                             (''id'', JStr (issue_id issue)),
                             (''self'', JStr (issue_self issue)),
                             (''summary'', JStr (summary (issue_fields issue))),
                             (''status'', JStr (status_name (status (issue_fields issue)))),
                             (''issueType'', JStr (issuetype_name (issuetype (issue_fields issue))))])]"

definition handleCreateIssue :: "net \<Rightarrow> CreateIssueArgs \<Rightarrow> ToolResult io" where
  "handleCreateIssue nt args =
     await (createIssue nt (create_request args))
       (\<lambda>issue. return (text_result (created_issue_json issue)))"

subsection \<open>update-issue.ts\<close>

record UpdateIssueArgs = IssueKeyArgs +
  update_arg_fields :: object

definition updated_issue_json :: "string \<Rightarrow> JiraIssue \<Rightarrow> json" where
  "updated_issue_json key updatedIssue =
     JObj [(''success'', JBool True),
           (''message'', JStr (''Issue '' @ key @ '' updated successfully'')),
           (''issue'', JObj [(''key'', JStr (issue_key updatedIssue)),
                             (''summary'', JStr (summary (issue_fields updatedIssue))),
                             (''status'', JStr (status_name (status (issue_fields updatedIssue)))),
                             (''updated'', JStr (updated (issue_fields updatedIssue)))])]"

definition handleUpdateIssue :: "net \<Rightarrow> UpdateIssueArgs \<Rightarrow> ToolResult io" where
  "handleUpdateIssue nt args =
     await (updateIssue nt (issueKey args) \<lparr> update_fields = Some (update_arg_fields args) \<rparr>)
       (\<lambda>_. await (getIssue nt (issueKey args) None)
          (\<lambda>updatedIssue. return (text_result (updated_issue_json (issueKey args) updatedIssue))))"

subsection \<open>transitions.ts\<close>

definition transition_json :: "JiraTransition \<Rightarrow> json" where
  "transition_json t =
     JObj [(''id'', JStr (transition_id t)),
           (''name'', JStr (transition_name t)),
           (''to'', JObj [(''name'', JStr (status_name (to t))),
                          (''id'', JStr (status_id (to t))),
                          (''category'', JStr (category_name (statusCategory (to t))))])]"

definition handleGetTransitions :: "net \<Rightarrow> IssueKeyArgs \<Rightarrow> ToolResult io" where
  "handleGetTransitions nt args =
     await (getTransitions nt (issueKey args))
       (\<lambda>ts. return (text_result (JObj [(''issueKey'', JStr (issueKey args)),
                                          (''transitions'', JArr (map transition_json ts))])))"

record TransitionIssueArgs = IssueKeyArgs +
  transitionId :: string
  transition_arg_fields :: "object option"

definition transitioned_issue_json :: "string \<Rightarrow> JiraIssue \<Rightarrow> json" where
  "transitioned_issue_json key updatedIssue =
     JObj [(''success'', JBool True),
           (''message'', JStr (''Issue '' @ key @ '' transitioned successfully'')),
           (''issue'', JObj [(''key'', JStr (issue_key updatedIssue)),
                             (''summary'', JStr (summary (issue_fields updatedIssue))),
                             (''status'',
                              JObj [(''name'', JStr (status_name (status (issue_fields updatedIssue)))),
                                    (''category'',
                                     JStr (category_name (statusCategory (status (issue_fields updatedIssue)))))])])]"

definition handleTransitionIssue :: "net \<Rightarrow> TransitionIssueArgs \<Rightarrow> ToolResult io" where
  "handleTransitionIssue nt args =
     await (transitionIssue nt (issueKey args)
              \<lparr> transition = transitionId args, transition_fields = transition_arg_fields args \<rparr>)
       (\<lambda>_. await (getIssue nt (issueKey args) None)
          (\<lambda>updatedIssue. return (text_result (transitioned_issue_json (issueKey args) updatedIssue))))"

subsection \<open>comments.ts\<close>

definition comment_json :: "JiraComment \<Rightarrow> json" where
  "comment_json c =
     literal [(''id'', Some (JStr (comment_id c))),
              (''author'', Some (user_json (author c))),
              (''body'', Some (JStr (comment_body c))),
              (''created'', Some (JStr (comment_created c))),
              (''updated'', Some (JStr (comment_updated c))),
              (''visibility'',
               map_option (\<lambda>v. JObj [(''type'', JStr (visibility_type v)), (''value'', JStr (visibility_value v))])
                 (comment_visibility c))]"

definition handleGetComments :: "net \<Rightarrow> IssueKeyArgs \<Rightarrow> ToolResult io" where
  "handleGetComments nt args =
     await (getComments nt (issueKey args))
       (\<lambda>cs. return (text_result (JObj [(''issueKey'', JStr (issueKey args)),
                                          (''total'', JNum (int (length cs))),
                                          (''comments'', JArr (map comment_json cs))])))"

record AddCommentArgs = IssueKeyArgs +
  body :: string
  visibilityType :: "VisibilityType option"
  visibilityValue :: "string option"

text \<open>\<^verbatim>\<open>if (args.visibilityType && args.visibilityValue)\<close>: both enumeration values are
  non-empty strings, so the type is truthy when present; the value is truthy when
  present and non-empty.\<close>

definition comment_request :: "AddCommentArgs \<Rightarrow> JiraAddCommentRequest" where
  "comment_request args =
     \<lparr> request_body = body args,
       request_visibility =
         (case (visibilityType args, visibilityValue args) of
            (Some t, Some v) \<Rightarrow> if v \<noteq> [] then Some (t, v) else None
          | _ \<Rightarrow> None) \<rparr>"

definition added_comment_json :: "string \<Rightarrow> JiraComment \<Rightarrow> json" where
  "added_comment_json key comment =
     JObj [(''success'', JBool True),
           (''message'', JStr (''Comment added to '' @ key)),
           (''comment'', JObj [(''id'', JStr (comment_id comment)),
                               (''author'', JObj [(''displayName'', JStr (displayName (author comment)))]),
                               (''body'', JStr (comment_body comment)),
                               (''created'', JStr (comment_created comment))])]"

definition handleAddComment :: "net \<Rightarrow> AddCommentArgs \<Rightarrow> ToolResult io" where
  "handleAddComment nt args =
     await (addComment nt (issueKey args) (comment_request args))
       (\<lambda>comment. return (text_result (added_comment_json (issueKey args) comment)))"

section \<open>The dispatcher (index.ts)\<close>

text \<open>The arguments of a call arrive untyped and each case of the switch casts them
  (\<^verbatim>\<open>args as SearchIssuesArgs\<close>) without a check. A cast is the selector of the
  expected shape; on arguments of another shape the typed program says nothing.\<close>

datatype tool_args =
    SearchIssues (as_SearchIssuesArgs: SearchIssuesArgs)
  | GetIssue (as_GetIssueArgs: GetIssueArgs)
  | CreateIssue (as_CreateIssueArgs: CreateIssueArgs)
  | UpdateIssue (as_UpdateIssueArgs: UpdateIssueArgs)
  | GetTransitions (as_GetTransitionsArgs: IssueKeyArgs)
  | TransitionIssue (as_TransitionIssueArgs: TransitionIssueArgs)
  | GetComments (as_GetCommentsArgs: IssueKeyArgs)
  | AddComment (as_AddCommentArgs: AddCommentArgs)

text \<open>The names announced by the tool list handler.\<close>

definition tool_names :: "string list" where
  "tool_names = [''jira_search'', ''jira_get_issue'', ''jira_create_issue'', ''jira_update_issue'',
                 ''jira_get_transitions'', ''jira_transition_issue'', ''jira_get_comments'',
                 ''jira_add_comment'']"

text \<open>The body of the \<^verbatim>\<open>try\<close> block: the switch on the tool name.\<close>

definition switch_name :: "net \<Rightarrow> string \<Rightarrow> tool_args \<Rightarrow> ToolResult io" where
  "switch_name nt name args =
     (if name = ''jira_search'' then handleSearchIssues nt (as_SearchIssuesArgs args)
      else if name = ''jira_get_issue'' then handleGetIssue nt (as_GetIssueArgs args)
      else if name = ''jira_create_issue'' then handleCreateIssue nt (as_CreateIssueArgs args)
      else if name = ''jira_update_issue'' then handleUpdateIssue nt (as_UpdateIssueArgs args)
      else if name = ''jira_get_transitions'' then handleGetTransitions nt (as_GetTransitionsArgs args)
      else if name = ''jira_transition_issue'' then handleTransitionIssue nt (as_TransitionIssueArgs args)
      else if name = ''jira_get_comments'' then handleGetComments nt (as_GetCommentsArgs args)
      else if name = ''jira_add_comment'' then handleAddComment nt (as_AddCommentArgs args)
      else throw (Error (''Unknown tool: '' @ name)))"

text \<open>\<^verbatim>\<open>error instanceof Error ? error.message : String(error)\<close>; an axios error is an
  \<^verbatim>\<open>Error\<close> too.\<close>

definition errorMessage :: "thrown \<Rightarrow> string" where
  "errorMessage error = (case error of AxiosErr e \<Rightarrow> message e | Error m \<Rightarrow> m)"

definition error_result :: "string \<Rightarrow> ToolResult" where
  "error_result m =
     \<lparr> content = [\<lparr> content_type = ''text'',
                     content_text = JSON_stringify (JObj [(''error'', JBool True), (''message'', JStr m)]) \<rparr>],
       isError = Some True \<rparr>"

text \<open>The handler registered for \<^verbatim>\<open>CallToolRequestSchema\<close>. It returns an envelope in
  every case; nothing is thrown past it.\<close>

definition CallToolRequest_handler :: "net \<Rightarrow> string \<Rightarrow> tool_args \<Rightarrow> state \<Rightarrow> ToolResult \<times> state" where
  "CallToolRequest_handler nt name args s =
     (case switch_name nt name args s of
        (Inr result, s') \<Rightarrow> (result, s')
      | (Inl error, s') \<Rightarrow> (error_result (errorMessage error), s'))"

section \<open>State between calls\<close>

text \<open>A remote side is history free when its answers depend on the request alone, not
  on the requests sent before.\<close>

definition history_free_ep :: "'a endpoint \<Rightarrow> bool" where
  "history_free_ep ep = (\<forall>h h' r. ep h r = ep h' r)"

definition history_free :: "net \<Rightarrow> bool" where
  "history_free nt =
     (history_free_ep (search_jql nt) \<and> history_free_ep (issue_get nt) \<and>
      history_free_ep (issue_post nt) \<and> history_free_ep (issue_put nt) \<and>
      history_free_ep (transitions_get nt) \<and> history_free_ep (transitions_post nt) \<and>
      history_free_ep (comment_get nt) \<and> history_free_ep (comment_post nt))"

text \<open>Two properties of a computation: it leaves the client as it found it; and what it
  returns or throws is the same from any two states with the same client.\<close>

definition keeps_client :: "'a io \<Rightarrow> bool" where
  "keeps_client m = (\<forall>s. jiraClient (snd (m s)) = jiraClient s)"

definition client_only :: "'a io \<Rightarrow> bool" where
  "client_only m = (\<forall>s1 s2. jiraClient s1 = jiraClient s2 \<longrightarrow> fst (m s1) = fst (m s2))"

section \<open>Example environments\<close>

text \<open>Concrete clients, remote sides and arguments on which the theorems below are
  exercised.\<close>

definition example_client :: JiraClient where
  "example_client = new_JiraClient (\<lambda>_. ''dXNlcjp0b2tlbg=='') ''https://jira.example.com/'' ''user'' ''token''"

definition s0 :: state where
  "s0 = \<lparr> jiraClient = example_client, sent = [] \<rparr>"

definition network_error :: AxiosError where
  "network_error = \<lparr> message = ''Network Error'', response = None \<rparr>"

text \<open>No answer from anywhere.\<close>

definition offline :: net where
  "offline = \<lparr> search_jql = (\<lambda>_ _. Inl network_error),
               issue_get = (\<lambda>_ _. Inl network_error),
               issue_post = (\<lambda>_ _. Inl network_error),
               issue_put = (\<lambda>_ _. Inl network_error),
               transitions_get = (\<lambda>_ _. Inl network_error),
               transitions_post = (\<lambda>_ _. Inl network_error),
               comment_get = (\<lambda>_ _. Inl network_error),
               comment_post = (\<lambda>_ _. Inl network_error) \<rparr>"

definition open_status :: JiraStatus where
  "open_status = \<lparr> status_id = ''1'', status_name = ''Open'',
                   statusCategory = \<lparr> category_name = ''To Do'' \<rparr> \<rparr>"

definition issue_with :: "string \<Rightarrow> string \<Rightarrow> string \<Rightarrow> JiraIssue" where
  "issue_with key pkey smry =
     \<lparr> issue_id = ''10001'', issue_key = key, issue_self = ''https://jira.example.com/rest/api/3/issue/10001'',
       issue_fields =
         \<lparr> summary = smry, description = Undefined,
           issuetype = \<lparr> issuetype_name = ''Task'', subtask = False \<rparr>,
           project = \<lparr> project_key = pkey, project_name = ''Project'' \<rparr>,
           status = open_status, priority = None, assignee = Null, reporter = None,
           created = ''2024-01-01T00:00:00.000+0000'', updated = ''2024-01-01T00:00:00.000+0000'',
           resolutiondate = Null, labels = None, components = None, fixVersions = None \<rparr> \<rparr>"

definition search_args1 :: SearchIssuesArgs where
  "search_args1 = \<lparr> jql = ''project = PROJ'', maxResults = Some 10, nextPageToken = None,
                     search_fields = Some [''summary'', ''status'', ''assignee''] \<rparr>"

definition search_args0 :: SearchIssuesArgs where
  "search_args0 = \<lparr> jql = ''project = PROJ'', maxResults = None, nextPageToken = None,
                     search_fields = Some [] \<rparr>"

definition empty_token_result :: JiraSearchResult where
  "empty_token_result = \<lparr> issues = [], total = None, result_nextPageToken = Some [], isLast = Some True \<rparr>"

definition empty_token_net :: net where
  "empty_token_net = offline\<lparr> search_jql := (\<lambda>_ _. Inr empty_token_result) \<rparr>"

definition token_result :: JiraSearchResult where
  "token_result = \<lparr> issues = [issue_with ''PROJ-1'' ''PROJ'' ''First''], total = Some 7,
                     result_nextPageToken = Some ''abc'', isLast = None \<rparr>"

definition token_net :: net where
  "token_net = offline\<lparr> search_jql := (\<lambda>_ _. Inr token_result) \<rparr>"

definition example_comment :: JiraComment where
  "example_comment = \<lparr> comment_id = ''20001'',
      author = \<lparr> displayName = ''Ann'', emailAddress = None \<rparr>,
      comment_body = ''hello'', comment_created = ''2024-01-02T00:00:00.000+0000'',
      comment_updated = ''2024-01-02T00:00:00.000+0000'', comment_visibility = None \<rparr>"

definition comment_net :: net where
  "comment_net = offline\<lparr> comment_post := (\<lambda>_ _. Inr example_comment) \<rparr>"

definition role_only_args :: AddCommentArgs where
  "role_only_args = \<lparr> issueKey = ''PROJ-1'', body = ''hello'', visibilityType = Some role,
                       visibilityValue = None \<rparr>"

definition create_args0 :: CreateIssueArgs where
  "create_args0 = \<lparr> projectKey = ''PROJ'', issueType = ''Task'', summary_arg = ''Requested'',
                     description_arg = None, priority_arg = None, assignee_arg = Some ''ann@example.com'',
                     labels_arg = None, components_arg = None, customFields = None \<rparr>"

definition empty_assignee_args :: CreateIssueArgs where
  "empty_assignee_args = create_args0\<lparr> assignee_arg := Some [] \<rparr>"

definition custom_assignee_args :: CreateIssueArgs where
  "custom_assignee_args = create_args0\<lparr> customFields := Some [(''assignee'', JObj [(''name'', JStr ''bob'')])] \<rparr>"


definition override_args :: CreateIssueArgs where
  "override_args = create_args0\<lparr> customFields := Some [(''summary'', JStr ''Overridden'')] \<rparr>"

definition not_found :: AxiosError where
  "not_found = \<lparr> message = ''Request failed with status code 404'',
                  response = Some \<lparr> response_status = 404,
                                    response_data = Some \<lparr> errorMessages = Some [''Issue does not exist''],
                                                            errors = Some [] \<rparr> \<rparr> \<rparr>"

text \<open>A remote side that keeps what it is sent: it answers the fetch with the project
  key and the summary of the latest create request.\<close>

definition stored_issue :: "http_request list \<Rightarrow> JiraIssue option" where
  "stored_issue h =
     (case filter (\<lambda>r. request_method r = POST) h of
        [] \<Rightarrow> None
      | r # rs \<Rightarrow>
          (case data (last (r # rs)) of
             Some (JObj [(_, JObj fs)]) \<Rightarrow>
               (case (map_of fs ''project'', map_of fs ''summary'') of
                  (Some (JObj [(_, JStr pkey)]), Some (JStr smry)) \<Rightarrow> Some (issue_with ''PROJ-1'' pkey smry)
                | _ \<Rightarrow> None)
           | _ \<Rightarrow> None))"

definition echo_net :: net where
  "echo_net = offline\<lparr>
     issue_post := (\<lambda>_ _. Inr \<lparr> created_id = ''10001'', created_key = ''PROJ-1'',
                                 created_self = ''https://jira.example.com/rest/api/3/issue/10001'' \<rparr>),
     issue_get := (\<lambda>h _. case stored_issue h of Some i \<Rightarrow> Inr i | None \<Rightarrow> Inl not_found) \<rparr>"

definition get_args0 :: GetIssueArgs where
  "get_args0 = \<lparr> issueKey = ''PROJ-1'', get_fields = None \<rparr>"

section \<open>The client, one request at a time\<close>

text \<open>What a guarded axios call does: the request is appended to the requests sent, an
  axios error is passed through \<open>handleError\<close>, a payload is returned.\<close>

lemma try_catch_axios:
  "try_catch (axios_request ep m path ps d) s =
     (case ep (sent s) (build_request (jiraClient s) m path ps d) of
        Inl e \<Rightarrow> Inl (handleError (AxiosErr e))
      | Inr x \<Rightarrow> Inr x,
      s\<lparr> sent := sent s @ [build_request (jiraClient s) m path ps d] \<rparr>)"
  by (simp add: try_catch_def axios_request_def Let_def split: sum.splits)

lemma try_catch_axios_return:
  "try_catch (await (axios_request ep m path ps d) (\<lambda>x. return (f x))) s =
     (case ep (sent s) (build_request (jiraClient s) m path ps d) of
        Inl e \<Rightarrow> Inl (handleError (AxiosErr e))
      | Inr x \<Rightarrow> Inr (f x),
      s\<lparr> sent := sent s @ [build_request (jiraClient s) m path ps d] \<rparr>)"
  by (simp add: try_catch_def await_def return_def axios_request_def Let_def split: sum.splits)

lemma handleError_idem: "handleError (handleError e) = handleError e"
  by (simp add: handleError_def split: thrown.splits option.splits)

lemma await_return_snd: "snd (await m (\<lambda>x. return (f x)) s) = snd (m s)"
  by (simp add: await_def return_def split: prod.splits sum.splits)

lemma searchIssues_run:
  "searchIssues nt q mr tok flds s =
     (case search_jql nt (sent s)
             (build_request (jiraClient s) GET ''/search/jql'' (search_params q mr tok flds) None) of
        Inl e \<Rightarrow> Inl (handleError (AxiosErr e))
      | Inr x \<Rightarrow> Inr x,
      s\<lparr> sent := sent s @
             [build_request (jiraClient s) GET ''/search/jql'' (search_params q mr tok flds) None] \<rparr>)"
  by (simp add: searchIssues_def try_catch_axios)

lemma getIssue_run:
  "getIssue nt k flds s =
     (case issue_get nt (sent s)
             (build_request (jiraClient s) GET (''/issue/'' @ k) (issue_params flds) None) of
        Inl e \<Rightarrow> Inl (handleError (AxiosErr e))
      | Inr x \<Rightarrow> Inr x,
      s\<lparr> sent := sent s @ [build_request (jiraClient s) GET (''/issue/'' @ k) (issue_params flds) None] \<rparr>)"
  by (simp add: getIssue_def try_catch_axios)

text \<open>In \<open>createIssue\<close> the error of the inner \<open>getIssue\<close> passes through the outer
  \<open>catch\<close> unchanged.\<close>

lemma createIssue_run:
  "createIssue nt request s =
     (let post = build_request (jiraClient s) POST ''/issue'' []
                   (Some (JObj [(''fields'', JObj (create_fields request))]));
          s1 = s\<lparr> sent := sent s @ [post] \<rparr>
      in case issue_post nt (sent s) post of
           Inl e \<Rightarrow> (Inl (handleError (AxiosErr e)), s1)
         | Inr c \<Rightarrow> getIssue nt (created_key c) None s1)"
  by (simp add: createIssue_def try_catch_def await_def axios_request_def Let_def getIssue_run
        handleError_idem split: sum.splits)

lemma updateIssue_run:
  "updateIssue nt k request s =
     (case issue_put nt (sent s)
             (build_request (jiraClient s) PUT (''/issue/'' @ k) []
                (Some (literal [(''fields'', map_option JObj (update_fields request))]))) of
        Inl e \<Rightarrow> Inl (handleError (AxiosErr e))
      | Inr x \<Rightarrow> Inr x,
      s\<lparr> sent := sent s @
             [build_request (jiraClient s) PUT (''/issue/'' @ k) []
                (Some (literal [(''fields'', map_option JObj (update_fields request))]))] \<rparr>)"
  by (simp add: updateIssue_def try_catch_axios)

lemma getTransitions_run:
  "getTransitions nt k s =
     (case transitions_get nt (sent s)
             (build_request (jiraClient s) GET (''/issue/'' @ k @ ''/transitions'') [] None) of
        Inl e \<Rightarrow> Inl (handleError (AxiosErr e))
      | Inr x \<Rightarrow> Inr (transitions x),
      s\<lparr> sent := sent s @
             [build_request (jiraClient s) GET (''/issue/'' @ k @ ''/transitions'') [] None] \<rparr>)"
  by (simp add: getTransitions_def try_catch_axios_return)

lemma transitionIssue_run:
  "transitionIssue nt k request s =
     (case transitions_post nt (sent s)
             (build_request (jiraClient s) POST (''/issue/'' @ k @ ''/transitions'') []
                (Some (transition_request_json request))) of
        Inl e \<Rightarrow> Inl (handleError (AxiosErr e))
      | Inr x \<Rightarrow> Inr x,
      s\<lparr> sent := sent s @
             [build_request (jiraClient s) POST (''/issue/'' @ k @ ''/transitions'') []
                (Some (transition_request_json request))] \<rparr>)"
  by (simp add: transitionIssue_def try_catch_axios)

lemma getComments_run:
  "getComments nt k s =
     (case comment_get nt (sent s)
             (build_request (jiraClient s) GET (''/issue/'' @ k @ ''/comment'') [] None) of
        Inl e \<Rightarrow> Inl (handleError (AxiosErr e))
      | Inr x \<Rightarrow> Inr (comments x),
      s\<lparr> sent := sent s @
             [build_request (jiraClient s) GET (''/issue/'' @ k @ ''/comment'') [] None] \<rparr>)"
  by (simp add: getComments_def try_catch_axios_return)

lemma addComment_run:
  "addComment nt k request s =
     (case comment_post nt (sent s)
             (build_request (jiraClient s) POST (''/issue/'' @ k @ ''/comment'') []
                (Some (comment_request_json request))) of
        Inl e \<Rightarrow> Inl (handleError (AxiosErr e))
      | Inr x \<Rightarrow> Inr x,
      s\<lparr> sent := sent s @
             [build_request (jiraClient s) POST (''/issue/'' @ k @ ''/comment'') []
                (Some (comment_request_json request))] \<rparr>)"
  by (simp add: addComment_def try_catch_axios)

lemma search_fields_param:
  "map_of (search_params q mr tok flds) ''fields'' =
     Some (JStr (case flds of None \<Rightarrow> default_search_fields
                 | Some fs \<Rightarrow> if fs = [] then default_search_fields else join '','' fs))"
  by (simp add: search_params_def Let_def set_prop_def update_conv' split: option.splits)

section \<open>Search: the field list\<close>

lemma split_on_not_Nil: "split_on c s \<noteq> []"
  by (induction s) (auto split: list.splits)

lemma split_on_no_separator: "c \<notin> set f \<Longrightarrow> split_on c f = [f]"
  by (induction f) auto

lemma split_on_append:
  "c \<notin> set f \<Longrightarrow> split_on c (f @ c # rest) = f # split_on c rest"
  by (induction f) (auto split: list.splits)

text \<open>A joined list of names without the separator is read back as the same list.\<close>

lemma split_on_join:
  "fs \<noteq> [] \<Longrightarrow> \<forall>f\<in>set fs. c \<notin> set f \<Longrightarrow> split_on c (join [c] fs) = fs"
proof (induction "[c]" fs rule: join.induct)
  case 1
  then show ?case by simp
next
  case (2 x)
  then show ?case by (simp add: split_on_no_separator)
next
  case (3 x y ys)
  then show ?case by (simp add: split_on_append)
qed

text \<open>
  Claim C8. Every search call sends one \<^verbatim>\<open>GET /search/jql\<close> request. When the field
  list of the call is omitted or empty, its \<^verbatim>\<open>fields\<close> parameter is the fixed default
  \<^verbatim>\<open>key,summary,status,issuetype,assignee,reporter,created,updated,priority,project\<close>;
  when a non-empty list is supplied, the parameter is that list, joined by commas, and
  for names without a comma it reads back, split at the commas, as exactly the list
  supplied.
\<close>

theorem search_sends_default_or_given_fields:
  "\<exists>req. sent (snd (handleSearchIssues nt args s)) = sent s @ [req] \<and>
         request_method req = GET \<and>
         url req = baseURL (client (jiraClient s)) @ ''/search/jql'' \<and>
         map_of (params req) ''fields'' =
           Some (JStr (case search_fields args of
                         None \<Rightarrow> ''key,summary,status,issuetype,assignee,reporter,created,updated,priority,project''
                       | Some fs \<Rightarrow>
                           if fs = []
                           then ''key,summary,status,issuetype,assignee,reporter,created,updated,priority,project''
                           else join '','' fs)) \<and>
         (\<forall>fs. search_fields args = Some fs \<and> fs \<noteq> [] \<and> (\<forall>f\<in>set fs. CHR '','' \<notin> set f) \<longrightarrow>
               (\<exists>v. map_of (params req) ''fields'' = Some (JStr v) \<and> split_on CHR '','' v = fs))"
  by (simp add: handleSearchIssues_def await_return_snd searchIssues_run search_fields_param
        build_request_def default_search_fields_def split_on_join split: option.splits)

theorem search_sends_default_or_given_fields_witness:
  "(\<exists>req. sent (snd (handleSearchIssues offline search_args0 s0)) = [req] \<and>
          request_method req = GET \<and>
          url req = ''https://jira.example.com/rest/api/3/search/jql'' \<and>
          map_of (params req) ''fields'' =
            Some (JStr ''key,summary,status,issuetype,assignee,reporter,created,updated,priority,project'')) \<and>
   (\<exists>req. sent (snd (handleSearchIssues offline search_args1 s0)) = [req] \<and>
          request_method req = GET \<and>
          url req = ''https://jira.example.com/rest/api/3/search/jql'' \<and>
          map_of (params req) ''fields'' = Some (JStr ''summary,status,assignee'') \<and>
          split_on CHR '','' ''summary,status,assignee'' = [''summary'', ''status'', ''assignee''])"
proof -
  have chosen: "search_fields search_args1 = Some [''summary'', ''status'', ''assignee'']"
    by (simp add: search_args1_def)
  have client: "sent s0 = []"
      "baseURL (client (jiraClient s0)) = ''https://jira.example.com/rest/api/3''"
    by (simp_all add: s0_def example_client_def new_JiraClient_def strip_trailing_slash_def)
  from search_sends_default_or_given_fields [of offline search_args0 s0]
  have a: "\<exists>req. sent (snd (handleSearchIssues offline search_args0 s0)) = [req] \<and>
          request_method req = GET \<and>
          url req = ''https://jira.example.com/rest/api/3/search/jql'' \<and>
          map_of (params req) ''fields'' =
            Some (JStr ''key,summary,status,issuetype,assignee,reporter,created,updated,priority,project'')"
    by (simp add: search_args0_def client)
  from search_sends_default_or_given_fields [of offline search_args1 s0]
  obtain req where req:
      "sent (snd (handleSearchIssues offline search_args1 s0)) = sent s0 @ [req]"
      "request_method req = GET"
      "url req = baseURL (client (jiraClient s0)) @ ''/search/jql''"
      "map_of (params req) ''fields'' =
         Some (JStr (join '','' [''summary'', ''status'', ''assignee'']))"
      "\<forall>fs. search_fields search_args1 = Some fs \<and> fs \<noteq> [] \<and> (\<forall>f\<in>set fs. CHR '','' \<notin> set f) \<longrightarrow>
            (\<exists>v. map_of (params req) ''fields'' = Some (JStr v) \<and> split_on CHR '','' v = fs)"
    by (auto simp add: chosen)
  have joined: "join '','' [''summary'', ''status'', ''assignee''] = ''summary,status,assignee''"
    by simp
  from req(5) chosen req(4) joined
  have reread: "split_on CHR '','' ''summary,status,assignee'' = [''summary'', ''status'', ''assignee'']"
    by auto
  from req(1-4) joined reread client
  have b: "\<exists>req. sent (snd (handleSearchIssues offline search_args1 s0)) = [req] \<and>
          request_method req = GET \<and>
          url req = ''https://jira.example.com/rest/api/3/search/jql'' \<and>
          map_of (params req) ''fields'' = Some (JStr ''summary,status,assignee'') \<and>
          split_on CHR '','' ''summary,status,assignee'' = [''summary'', ''status'', ''assignee'']"
    by (intro exI [of _ req]) simp
  from a b show ?thesis by (rule conjI)
qed

section \<open>Search: the pagination signal\<close>

lemma search_response_token:
  "result_nextPageToken r = Some t \<Longrightarrow> t \<noteq> [] \<Longrightarrow>
     map_of (search_response r) ''nextPageToken'' = Some (JStr t) \<and>
     map_of (search_response r) ''hasMoreResults'' = Some (JBool True)"
  by (simp add: search_response_def Let_def set_prop_def update_conv' split: option.splits)

lemma search_response_isLast:
  "result_nextPageToken r = None \<or> result_nextPageToken r = Some [] \<Longrightarrow> isLast r = Some b \<Longrightarrow>
     map_of (search_response r) ''nextPageToken'' = None \<and>
     map_of (search_response r) ''isLast'' = Some (JBool b) \<and>
     map_of (search_response r) ''hasMoreResults'' = Some (JBool (\<not> b))"
  by (auto simp add: search_response_def Let_def set_prop_def update_conv' split: option.splits)

lemma search_response_no_signal:
  "result_nextPageToken r = None \<or> result_nextPageToken r = Some [] \<Longrightarrow> isLast r = None \<Longrightarrow>
     map_of (search_response r) ''nextPageToken'' = None \<and>
     map_of (search_response r) ''isLast'' = None \<and>
     map_of (search_response r) ''hasMoreResults'' = None"
  by (auto simp add: search_response_def Let_def set_prop_def update_conv' split: option.splits)

lemma token_net_search:
  "searchIssues token_net q mr tok flds s0 =
     (Inr token_result,
      s0\<lparr> sent := [build_request example_client GET ''/search/jql'' (search_params q mr tok flds) None] \<rparr>)"
  by (simp add: searchIssues_run token_net_def s0_def)

text \<open>
  Claim C1, as the code has it. Whenever the search of the client returns a result, the
  handler answers with the projection of that result, and in the projection:
  a continuation token that is present and not the empty string is carried over with
  \<^verbatim>\<open>hasMoreResults: true\<close>; when the token is absent or the empty string and the
  is-last-page boolean is defined, the boolean is carried over and \<^verbatim>\<open>hasMoreResults\<close> is
  its negation, with no token; when the token is absent or empty and the boolean is
  undefined, the response has none of \<^verbatim>\<open>nextPageToken\<close>, \<^verbatim>\<open>isLast\<close>,
  \<^verbatim>\<open>hasMoreResults\<close>.
\<close>

theorem search_pagination_signal:
  assumes "searchIssues nt (jql args) (maxResults args) (nextPageToken args) (search_fields args) s
             = (Inr result, s')"
  shows "\<exists>response.
           handleSearchIssues nt args s = (Inr (text_result (JObj response)), s') \<and>
           (\<forall>t. result_nextPageToken result = Some t \<and> t \<noteq> [] \<longrightarrow>
                  map_of response ''nextPageToken'' = Some (JStr t) \<and>
                  map_of response ''hasMoreResults'' = Some (JBool True)) \<and>
           (\<forall>b. (result_nextPageToken result = None \<or> result_nextPageToken result = Some []) \<and>
                  isLast result = Some b \<longrightarrow>
                  map_of response ''nextPageToken'' = None \<and>
                  map_of response ''isLast'' = Some (JBool b) \<and>
                  map_of response ''hasMoreResults'' = Some (JBool (\<not> b))) \<and>
           ((result_nextPageToken result = None \<or> result_nextPageToken result = Some []) \<and>
              isLast result = None \<longrightarrow>
                  map_of response ''nextPageToken'' = None \<and>
                  map_of response ''isLast'' = None \<and>
                  map_of response ''hasMoreResults'' = None)"
proof -
  have run: "handleSearchIssues nt args s = (Inr (text_result (JObj (search_response result))), s')"
    using assms by (simp add: handleSearchIssues_def await_def return_def)
  show ?thesis
  proof (intro exI conjI allI impI)
    show "handleSearchIssues nt args s = (Inr (text_result (JObj (search_response result))), s')"
      by (rule run)
  qed (simp_all add: search_response_token search_response_isLast search_response_no_signal)
qed

theorem search_pagination_signal_witness:
  "\<exists>response.
     fst (handleSearchIssues token_net search_args0 s0) = Inr (text_result (JObj response)) \<and>
     map_of response ''nextPageToken'' = Some (JStr ''abc'') \<and>
     map_of response ''hasMoreResults'' = Some (JBool True)"
proof -
  have "result_nextPageToken token_result = Some ''abc''"
    by (simp add: token_result_def)
  with search_pagination_signal [OF token_net_search, of search_args0] show ?thesis
    by fastforce
qed

text \<open>The claim as written fails on a result whose continuation token is the empty
  string: the token is present, yet the response carries no token and reports
  \<^verbatim>\<open>hasMoreResults: false\<close> from the boolean.\<close>

theorem empty_token_is_not_signalled:
  "result_nextPageToken empty_token_result = Some [] \<and>
   fst (handleSearchIssues empty_token_net search_args0 s0) =
     Inr (text_result (JObj [(''issueCount'', JNum 0), (''issues'', JArr []),
                             (''isLast'', JBool True), (''hasMoreResults'', JBool False)]))"
  by (simp add: handleSearchIssues_def await_def return_def searchIssues_run empty_token_net_def
        empty_token_result_def search_response_def set_prop_def s0_def offline_def)

section \<open>Comments: visibility without a value\<close>

lemma switch_add_comment:
  "switch_name nt ''jira_add_comment'' args = handleAddComment nt (as_AddCommentArgs args)"
  by (simp add: switch_name_def)

lemma comment_request_no_value:
  "visibilityValue args = None \<Longrightarrow>
     comment_request args = \<lparr> request_body = body args, request_visibility = None \<rparr>"
  by (simp add: comment_request_def split: option.splits)

text \<open>
  Claim C2, as the code has it. An add-comment call with a \<^verbatim>\<open>visibilityType\<close> and no
  \<^verbatim>\<open>visibilityValue\<close> is not rejected: no validation runs before the handler, which sends
  one \<^verbatim>\<open>POST /issue/{key}/comment\<close> request whose body is the comment text alone, without
  a visibility restriction; when the remote side accepts it, the tool reports success.
\<close>

theorem add_comment_without_value_is_sent:
  assumes "visibilityType args = Some t" and "visibilityValue args = None"
  shows "\<exists>req.
           req = build_request (jiraClient s) POST (''/issue/'' @ issueKey args @ ''/comment'') []
                   (Some (JObj [(''body'', JStr (body args))])) \<and>
           sent (snd (CallToolRequest_handler nt ''jira_add_comment'' (AddComment args) s)) = sent s @ [req] \<and>
           (\<forall>c. comment_post nt (sent s) req = Inr c \<longrightarrow>
                fst (CallToolRequest_handler nt ''jira_add_comment'' (AddComment args) s) =
                  text_result (added_comment_json (issueKey args) c))"
  using assms
  by (simp add: CallToolRequest_handler_def switch_add_comment handleAddComment_def await_def
        return_def addComment_run comment_request_no_value comment_request_json_def literal_def
        split: sum.splits)

theorem add_comment_without_value_is_sent_witness:
  "sent (snd (CallToolRequest_handler comment_net ''jira_add_comment'' (AddComment role_only_args) s0)) =
     [build_request example_client POST ''/issue/PROJ-1/comment'' [] (Some (JObj [(''body'', JStr ''hello'')]))] \<and>
   fst (CallToolRequest_handler comment_net ''jira_add_comment'' (AddComment role_only_args) s0) =
     text_result (added_comment_json ''PROJ-1'' example_comment)"
  using add_comment_without_value_is_sent [of role_only_args role s0 comment_net]
  by (simp add: role_only_args_def s0_def comment_net_def)

text \<open>The claim as written fails: with \<^verbatim>\<open>visibilityType = "role"\<close> and no value the
  call succeeds, one request is sent, and its body has no \<^verbatim>\<open>visibility\<close>.\<close>

theorem role_without_value_is_not_rejected:
  "visibilityType role_only_args = Some role \<and>
   visibilityValue role_only_args = None \<and>
   isError (fst (CallToolRequest_handler comment_net ''jira_add_comment'' (AddComment role_only_args) s0)) = None \<and>
   length (sent (snd (CallToolRequest_handler comment_net ''jira_add_comment'' (AddComment role_only_args) s0))) = 1 \<and>
   data (hd (sent (snd (CallToolRequest_handler comment_net ''jira_add_comment'' (AddComment role_only_args) s0)))) =
     Some (JObj [(''body'', JStr ''hello'')])"
  by (simp add: CallToolRequest_handler_def switch_add_comment handleAddComment_def await_def
        return_def addComment_run comment_request_def comment_request_json_def literal_def
        role_only_args_def s0_def comment_net_def text_result_def
        build_request_def)

section \<open>Issue creation: the request\<close>

lemma map_of_set_prop: "map_of (set_prop k v obj) = (map_of obj)(k \<mapsto> v)"
  by (simp add: set_prop_def update_conv')

lemma map_of_insert_index:
  "k \<notin> fst ` set obj \<Longrightarrow> map_of (insert_index k v obj) = (map_of obj)(k \<mapsto> v)"
  by (induction obj) (auto simp add: fun_upd_twist)

lemma map_of_append_new:
  assumes "k \<notin> fst ` set obj"
  shows "map_of (obj @ [(k, v)]) = (map_of obj)(k \<mapsto> v)"
proof
  fix x
  from assms have "map_of obj k = None"
    by (simp add: map_of_eq_None_iff)
  then show "map_of (obj @ [(k, v)]) x = ((map_of obj)(k \<mapsto> v)) x"
    by (cases "map_of obj x") (auto simp add: map_add_def)
qed

lemma map_of_assign_prop:
  "map_of (assign_prop k v obj) = (if k = ''__proto__'' then map_of obj else (map_of obj)(k \<mapsto> v))"
proof (cases "k = ''__proto__''")
  case True
  then show ?thesis by (simp add: assign_prop_def)
next
  case False
  show ?thesis
  proof (cases "k \<in> fst ` set obj")
    case True
    with False show ?thesis by (simp add: assign_prop_def update_conv')
  next
    case absent: False
    show ?thesis
    proof (cases "is_array_index k")
      case True
      with False absent show ?thesis
        by (simp only: assign_prop_def if_False if_True map_of_insert_index [OF absent])
    next
      case no_index: False
      with False absent show ?thesis
        by (simp only: assign_prop_def if_False map_of_append_new [OF absent])
    qed
  qed
qed

text \<open>The properties of the merged object: those of the target, overridden by the own
  properties of the source other than \<^verbatim>\<open>__proto__\<close>.\<close>

lemma map_of_Object_assign:
  "map_of (Object_assign t src) k =
     (if k = ''__proto__'' then map_of t k
      else case map_of (rev src) k of Some v \<Rightarrow> Some v | None \<Rightarrow> map_of t k)"
proof (induction src arbitrary: t)
  case Nil
  then show ?case by (simp add: Object_assign_def)
next
  case (Cons p src)
  obtain k' v' where p: "p = (k', v')" by (cases p)
  have "Object_assign t (p # src) = Object_assign (assign_prop k' v' t) src"
    by (simp add: Object_assign_def p)
  then show ?case
    by (simp add: Cons.IH map_of_assign_prop p map_add_def split: option.splits)
qed

lemma lookup_guarded_other:
  "k' \<noteq> k \<Longrightarrow>
     map_of (case x of Some d \<Rightarrow> if c d then set_prop k (g d) fs else fs | None \<Rightarrow> fs) k' = map_of fs k'"
  by (simp add: map_of_set_prop split: option.splits)

lemma lookup_guarded_same:
  "map_of (case x of Some d \<Rightarrow> if c d then set_prop k (g d) fs else fs | None \<Rightarrow> fs) k =
     (case x of Some d \<Rightarrow> if c d then Some (g d) else map_of fs k | None \<Rightarrow> map_of fs k)"
  by (simp add: map_of_set_prop split: option.splits)

lemma builtin_project:
  "map_of (builtin_fields args) ''project'' = Some (JObj [(''key'', JStr (projectKey args))])"
  by (simp add: builtin_fields_def Let_def lookup_guarded_other)

lemma builtin_summary:
  "map_of (builtin_fields args) ''summary'' = Some (JStr (summary_arg args))"
  by (simp add: builtin_fields_def Let_def lookup_guarded_other)

lemma builtin_assignee:
  "map_of (builtin_fields args) ''assignee'' =
     (case assignee_arg args of
        None \<Rightarrow> None
      | Some a \<Rightarrow>
          if a = [] then None
          else Some (if CHR ''@'' \<in> set a \<or> 20 < length a
                     then JObj [(''accountId'', JStr a)] else JObj [(''name'', JStr a)]))"
  by (simp add: builtin_fields_def Let_def lookup_guarded_other lookup_guarded_same
        split: option.splits)

lemma map_of_rev_None: "k \<notin> fst ` set cf \<Longrightarrow> map_of (rev cf) k = None"
  by (simp add: map_of_eq_None_iff)


lemma create_request_lookup:
  "k \<noteq> ''__proto__'' \<Longrightarrow>
     map_of (create_fields (create_request args)) k =
       (case customFields args of
          None \<Rightarrow> map_of (builtin_fields args) k
        | Some cf \<Rightarrow> (case map_of (rev cf) k of
                        Some v \<Rightarrow> Some v
                      | None \<Rightarrow> map_of (builtin_fields args) k))"
  by (simp add: create_request_def map_of_Object_assign split: option.splits)

lemma handleCreateIssue_sends:
  "\<exists>rest. sent (snd (handleCreateIssue nt args s)) =
            sent s @ build_request (jiraClient s) POST ''/issue'' []
                       (Some (JObj [(''fields'', JObj (create_fields (create_request args)))])) # rest"
  by (simp add: handleCreateIssue_def await_return_snd createIssue_run getIssue_run Let_def
        split: sum.splits)

text \<open>
  Claim C7, as the code has it. For every issue-creation call that supplies a non-empty
  assignee string and whose \<^verbatim>\<open>customFields\<close>, if any, have no \<^verbatim>\<open>assignee\<close> entry, the
  create request carries \<^verbatim>\<open>assignee: { accountId }\<close> exactly when the string contains
  \<^verbatim>\<open>@\<close> or is longer than 20, and \<^verbatim>\<open>assignee: { name }\<close> otherwise.
\<close>

theorem create_assignee_field:
  assumes "assignee_arg args = Some a" and "a \<noteq> []"
    and "case customFields args of None \<Rightarrow> True | Some cf \<Rightarrow> ''assignee'' \<notin> fst ` set cf"
  shows "\<exists>fs rest.
           sent (snd (handleCreateIssue nt args s)) =
             sent s @ build_request (jiraClient s) POST ''/issue'' [] (Some (JObj [(''fields'', JObj fs)])) # rest \<and>
           map_of fs ''assignee'' =
             Some (if CHR ''@'' \<in> set a \<or> 20 < length a
                   then JObj [(''accountId'', JStr a)] else JObj [(''name'', JStr a)])"
proof -
  have "map_of (create_fields (create_request args)) ''assignee'' =
          Some (if CHR ''@'' \<in> set a \<or> 20 < length a
                then JObj [(''accountId'', JStr a)] else JObj [(''name'', JStr a)])"
    using assms
    by (simp add: create_request_lookup builtin_assignee map_of_rev_None split: option.splits)
  with handleCreateIssue_sends [of nt args s] show ?thesis
    by blast
qed

theorem create_assignee_field_witness:
  "\<exists>fs rest.
     sent (snd (handleCreateIssue offline create_args0 s0)) =
       build_request example_client POST ''/issue'' [] (Some (JObj [(''fields'', JObj fs)])) # rest \<and>
     map_of fs ''assignee'' = Some (JObj [(''accountId'', JStr ''ann@example.com'')])"
  using create_assignee_field [of create_args0 "''ann@example.com''" offline s0]
  by (simp add: create_args0_def s0_def)

text \<open>The claim as written fails on the empty string, for which the request has no
  assignee at all, and on a call whose \<^verbatim>\<open>customFields\<close> carry their own
  \<^verbatim>\<open>assignee\<close>, which replaces the one derived from the argument.\<close>

theorem empty_or_overridden_assignee:
  "assignee_arg empty_assignee_args = Some [] \<and>
   create_fields (create_request empty_assignee_args) =
     [(''project'', JObj [(''key'', JStr ''PROJ'')]), (''summary'', JStr ''Requested''),
      (''issuetype'', JObj [(''name'', JStr ''Task'')])] \<and>
   assignee_arg custom_assignee_args = Some ''ann@example.com'' \<and>
   create_fields (create_request custom_assignee_args) =
     [(''project'', JObj [(''key'', JStr ''PROJ'')]), (''summary'', JStr ''Requested''),
      (''issuetype'', JObj [(''name'', JStr ''Task'')]), (''assignee'', JObj [(''name'', JStr ''bob'')])]"
  by (simp add: empty_assignee_args_def custom_assignee_args_def create_args0_def create_request_def
        builtin_fields_def Object_assign_def assign_prop_def set_prop_def)



text \<open>
  Claim C3, as the code has it. For every issue-creation call whose \<^verbatim>\<open>customFields\<close>, if
  any, have neither a \<^verbatim>\<open>project\<close> nor a \<^verbatim>\<open>summary\<close> entry, the create request carries
  the requested project key and the requested summary. The issue in the response of the
  handler is the projection (key, id, self, summary, status, issue type; no project
  key) of whatever issue the fetch of the client returns.
\<close>

theorem create_request_carries_project_and_summary:
  assumes "case customFields args of
             None \<Rightarrow> True
           | Some cf \<Rightarrow> ''project'' \<notin> fst ` set cf \<and> ''summary'' \<notin> fst ` set cf"
  shows "\<exists>fs rest.
           sent (snd (handleCreateIssue nt args s)) =
             sent s @ build_request (jiraClient s) POST ''/issue'' [] (Some (JObj [(''fields'', JObj fs)])) # rest \<and>
           map_of fs ''project'' = Some (JObj [(''key'', JStr (projectKey args))]) \<and>
           map_of fs ''summary'' = Some (JStr (summary_arg args)) \<and>
           (\<forall>issue s'. createIssue nt (create_request args) s = (Inr issue, s') \<longrightarrow>
              handleCreateIssue nt args s =
                (Inr (text_result
                   (JObj [(''success'', JBool True),
                          (''issue'', JObj [(''key'', JStr (issue_key issue)),
                                            (''id'', JStr (issue_id issue)),
                                            (''self'', JStr (issue_self issue)),
                                            (''summary'', JStr (summary (issue_fields issue))),
                                            (''status'', JStr (status_name (status (issue_fields issue)))),
                                            (''issueType'', JStr (issuetype_name (issuetype (issue_fields issue))))])])),
                 s'))"
proof -
  have p: "map_of (create_fields (create_request args)) ''project'' = Some (JObj [(''key'', JStr (projectKey args))])"
    using assms by (simp add: create_request_lookup builtin_project map_of_rev_None split: option.splits)
  have q: "map_of (create_fields (create_request args)) ''summary'' = Some (JStr (summary_arg args))"
    using assms by (simp add: create_request_lookup builtin_summary map_of_rev_None split: option.splits)
  have r: "handleCreateIssue nt args s = (Inr (text_result (created_issue_json issue)), s')"
    if "createIssue nt (create_request args) s = (Inr issue, s')" for issue s'
    using that by (simp add: handleCreateIssue_def await_def return_def)
  from handleCreateIssue_sends [of nt args s] p q r show ?thesis
    unfolding created_issue_json_def by blast
qed

lemma echo_create:
  "createIssue echo_net (create_request create_args0) s0 =
     (Inr (issue_with ''PROJ-1'' ''PROJ'' ''Requested''),
      s0\<lparr> sent := [build_request example_client POST ''/issue'' []
                       (Some (JObj [(''fields'', JObj (create_fields (create_request create_args0)))])),
                     build_request example_client GET ''/issue/PROJ-1'' [] None] \<rparr>)"
  by (simp add: createIssue_run getIssue_run echo_net_def offline_def s0_def stored_issue_def
        build_request_def create_request_def create_args0_def builtin_fields_def set_prop_def
        issue_params_def)

theorem create_request_carries_project_and_summary_witness:
  "\<exists>fs rest.
     sent (snd (handleCreateIssue echo_net create_args0 s0)) =
       build_request example_client POST ''/issue'' [] (Some (JObj [(''fields'', JObj fs)])) # rest \<and>
     map_of fs ''project'' = Some (JObj [(''key'', JStr ''PROJ'')]) \<and>
     map_of fs ''summary'' = Some (JStr ''Requested'') \<and>
     fst (handleCreateIssue echo_net create_args0 s0) =
       Inr (text_result (created_issue_json (issue_with ''PROJ-1'' ''PROJ'' ''Requested'')))"
proof -
  have "case customFields create_args0 of
          None \<Rightarrow> True
        | Some cf \<Rightarrow> ''project'' \<notin> fst ` set cf \<and> ''summary'' \<notin> fst ` set cf"
    by (simp add: create_args0_def)
  from create_request_carries_project_and_summary [OF this, of echo_net s0]
  obtain fs rest where
    "sent (snd (handleCreateIssue echo_net create_args0 s0)) =
       sent s0 @ build_request (jiraClient s0) POST ''/issue'' [] (Some (JObj [(''fields'', JObj fs)])) # rest"
    "map_of fs ''project'' = Some (JObj [(''key'', JStr (projectKey create_args0))])"
    "map_of fs ''summary'' = Some (JStr (summary_arg create_args0))"
    by blast
  moreover have "fst (handleCreateIssue echo_net create_args0 s0) =
       Inr (text_result (created_issue_json (issue_with ''PROJ-1'' ''PROJ'' ''Requested'')))"
    by (simp add: handleCreateIssue_def await_def return_def echo_create)
  moreover have "projectKey create_args0 = ''PROJ''" "summary_arg create_args0 = ''Requested''"
    by (simp_all add: create_args0_def)
  moreover have "sent s0 = []" "jiraClient s0 = example_client"
    by (simp_all add: s0_def)
  ultimately show ?thesis
    by (intro exI [of _ fs] exI [of _ rest]) simp
qed

text \<open>The claim as written fails when \<^verbatim>\<open>customFields\<close> overrides the summary: against
  a remote side that stores what it is sent, the returned summary is the custom one, not
  the \<^verbatim>\<open>summary\<close> argument; and the response has no project key to compare.\<close>

theorem overridden_summary_is_returned:
  "summary_arg override_args = ''Requested'' \<and>
   fst (handleCreateIssue echo_net override_args s0) =
     Inr (text_result
            (JObj [(''success'', JBool True),
                   (''issue'', JObj [(''key'', JStr ''PROJ-1''),
                                     (''id'', JStr ''10001''),
                                     (''self'', JStr ''https://jira.example.com/rest/api/3/issue/10001''),
                                     (''summary'', JStr ''Overridden''),
                                     (''status'', JStr ''Open''),
                                     (''issueType'', JStr ''Task'')])]))"
  by (simp add: handleCreateIssue_def await_def return_def createIssue_run getIssue_run echo_net_def
        offline_def s0_def stored_issue_def build_request_def create_request_def override_args_def
        create_args0_def builtin_fields_def set_prop_def Object_assign_def assign_prop_def issue_params_def
        created_issue_json_def issue_with_def open_status_def)

section \<open>The client: how many requests\<close>

text \<open>
  Claim C6, as the code has it. \<open>searchIssues\<close>, \<open>getIssue\<close>, \<open>updateIssue\<close>,
  \<open>getTransitions\<close>, \<open>transitionIssue\<close>, \<open>getComments\<close> and \<open>addComment\<close> each send
  exactly one request, whatever the answer. \<open>createIssue\<close> sends the create request;
  when that call fails it sends nothing else and throws; when it succeeds it sends
  exactly one more request, the fetch of the created key, and what \<open>createIssue\<close> returns
  or throws is the outcome of that fetch.
\<close>

theorem facade_http_calls:
  "sent (snd (searchIssues nt q mr tok flds s)) =
     sent s @ [build_request (jiraClient s) GET ''/search/jql'' (search_params q mr tok flds) None] \<and>
   sent (snd (getIssue nt k flds s)) =
     sent s @ [build_request (jiraClient s) GET (''/issue/'' @ k) (issue_params flds) None] \<and>
   sent (snd (updateIssue nt k upd s)) =
     sent s @ [build_request (jiraClient s) PUT (''/issue/'' @ k) []
                 (Some (literal [(''fields'', map_option JObj (update_fields upd))]))] \<and>
   sent (snd (getTransitions nt k s)) =
     sent s @ [build_request (jiraClient s) GET (''/issue/'' @ k @ ''/transitions'') [] None] \<and>
   sent (snd (transitionIssue nt k tr s)) =
     sent s @ [build_request (jiraClient s) POST (''/issue/'' @ k @ ''/transitions'') []
                 (Some (transition_request_json tr))] \<and>
   sent (snd (getComments nt k s)) =
     sent s @ [build_request (jiraClient s) GET (''/issue/'' @ k @ ''/comment'') [] None] \<and>
   sent (snd (addComment nt k cm s)) =
     sent s @ [build_request (jiraClient s) POST (''/issue/'' @ k @ ''/comment'') []
                 (Some (comment_request_json cm))] \<and>
   (\<forall>e. issue_post nt (sent s)
           (build_request (jiraClient s) POST ''/issue'' []
              (Some (JObj [(''fields'', JObj (create_fields request))]))) = Inl e \<longrightarrow>
        createIssue nt request s =
          (Inl (handleError (AxiosErr e)),
           s\<lparr> sent := sent s @ [build_request (jiraClient s) POST ''/issue'' []
                                   (Some (JObj [(''fields'', JObj (create_fields request))]))] \<rparr>)) \<and>
   (\<forall>c. issue_post nt (sent s)
           (build_request (jiraClient s) POST ''/issue'' []
              (Some (JObj [(''fields'', JObj (create_fields request))]))) = Inr c \<longrightarrow>
        sent (snd (createIssue nt request s)) =
          sent s @ [build_request (jiraClient s) POST ''/issue'' []
                      (Some (JObj [(''fields'', JObj (create_fields request))])),
                    build_request (jiraClient s) GET (''/issue/'' @ created_key c) [] None] \<and>
        fst (createIssue nt request s) =
          (case issue_get nt
                  (sent s @ [build_request (jiraClient s) POST ''/issue'' []
                               (Some (JObj [(''fields'', JObj (create_fields request))]))])
                  (build_request (jiraClient s) GET (''/issue/'' @ created_key c) [] None) of
             Inl e \<Rightarrow> Inl (handleError (AxiosErr e))
           | Inr issue \<Rightarrow> Inr issue))"
  by (simp add: searchIssues_run getIssue_run updateIssue_run getTransitions_run transitionIssue_run
        getComments_run addComment_run createIssue_run Let_def issue_params_def)

theorem facade_http_calls_witness:
  "sent (snd (createIssue echo_net (create_request create_args0) s0)) =
     [build_request example_client POST ''/issue'' []
        (Some (JObj [(''fields'', JObj (create_fields (create_request create_args0)))])),
      build_request example_client GET ''/issue/PROJ-1'' [] None] \<and>
   fst (createIssue echo_net (create_request create_args0) s0) =
     Inr (issue_with ''PROJ-1'' ''PROJ'' ''Requested'')"
proof -
  have post: "issue_post echo_net (sent s0)
          (build_request (jiraClient s0) POST ''/issue'' []
             (Some (JObj [(''fields'', JObj (create_fields (create_request create_args0)))]))) =
        Inr \<lparr> created_id = ''10001'', created_key = ''PROJ-1'',
              created_self = ''https://jira.example.com/rest/api/3/issue/10001'' \<rparr>"
    by (simp add: echo_net_def)
  have get: "issue_get echo_net
               (sent s0 @ [build_request (jiraClient s0) POST ''/issue'' []
                  (Some (JObj [(''fields'', JObj (create_fields (create_request create_args0)))]))])
               (build_request (jiraClient s0) GET ''/issue/PROJ-1'' [] None) =
             Inr (issue_with ''PROJ-1'' ''PROJ'' ''Requested'')"
    by (simp add: echo_net_def stored_issue_def build_request_def create_request_def
          create_args0_def builtin_fields_def set_prop_def s0_def)
  have s: "sent s0 = []" "jiraClient s0 = example_client"
    by (simp_all add: s0_def)
  from facade_http_calls [of echo_net _ _ _ _ s0 _ _ _ _ "create_request create_args0"] post get
  show ?thesis
    by (simp add: s)
qed

text \<open>The claim as written fails when the create call itself fails: one request is
  sent, not two.\<close>

theorem failed_create_sends_one_request:
  "fst (createIssue offline (create_request create_args0) s0) = Inl (Error ''Jira API Error: Network Error'') \<and>
   sent (snd (createIssue offline (create_request create_args0) s0)) =
     [build_request example_client POST ''/issue'' []
        (Some (JObj [(''fields'', JObj (create_fields (create_request create_args0)))]))]"
  by (simp add: createIssue_run offline_def s0_def handleError_def network_error_def)

section \<open>The client: errors\<close>

lemma handleError_with_body:
  "response e = Some r \<Longrightarrow> response_data r = Some d \<Longrightarrow>
     handleError (AxiosErr e) =
       Error (''Jira API Error ('' @ string_of_nat (response_status r) @ ''): '' @
              join '', '' ((case errorMessages d of None \<Rightarrow> [] | Some ms \<Rightarrow> ms) @
                           map (\<lambda>(key, v). key @ '': '' @ v)
                             (case errors d of None \<Rightarrow> [] | Some es \<Rightarrow> es)))"
  by (simp add: handleError_def error_messages_def)

lemma handleError_without_body:
  "response e = None \<or> (\<exists>r. response e = Some r \<and> response_data r = None) \<Longrightarrow>
     handleError (AxiosErr e) = Error (''Jira API Error: '' @ message e)"
  by (auto simp add: handleError_def)

text \<open>
  Claim C5, as the code has it. Every method of the client turns a failed call into exactly
  one thrown \<^verbatim>\<open>Error\<close> and sends nothing after the failed request (no retry). When the
  failure carries a response with a body, the message is \<^verbatim>\<open>Jira API Error (<status>): \<close>
  followed by the \<^verbatim>\<open>errorMessages\<close> of the server and its \<^verbatim>\<open>errors\<close>, each as
  \<^verbatim>\<open>key: value\<close>, joined by \<^verbatim>\<open>", "\<close>. When there is no response (a transport failure)
  or the response has no body, the message is \<^verbatim>\<open>Jira API Error: \<close> followed by the
  message of the transport error, with no status of its own.
\<close>

theorem facade_error_conversion:
  "(\<forall>r d. response e = Some r \<and> response_data r = Some d \<longrightarrow>
      handleError (AxiosErr e) =
        Error (''Jira API Error ('' @ string_of_nat (response_status r) @ ''): '' @
               join '', '' ((case errorMessages d of None \<Rightarrow> [] | Some ms \<Rightarrow> ms) @
                            map (\<lambda>(key, v). key @ '': '' @ v)
                              (case errors d of None \<Rightarrow> [] | Some es \<Rightarrow> es)))) \<and>
   (response e = None \<or> (\<exists>r. response e = Some r \<and> response_data r = None) \<longrightarrow>
      handleError (AxiosErr e) = Error (''Jira API Error: '' @ message e)) \<and>
   (search_jql nt (sent s)
      (build_request (jiraClient s) GET ''/search/jql'' (search_params q mr tok flds) None) = Inl e \<longrightarrow>
      searchIssues nt q mr tok flds s =
        (Inl (handleError (AxiosErr e)),
         s\<lparr> sent := sent s @
                [build_request (jiraClient s) GET ''/search/jql'' (search_params q mr tok flds) None] \<rparr>)) \<and>
   (issue_get nt (sent s)
      (build_request (jiraClient s) GET (''/issue/'' @ k) (issue_params flds) None) = Inl e \<longrightarrow>
      getIssue nt k flds s =
        (Inl (handleError (AxiosErr e)),
         s\<lparr> sent := sent s @
                [build_request (jiraClient s) GET (''/issue/'' @ k) (issue_params flds) None] \<rparr>)) \<and>
   (issue_put nt (sent s)
      (build_request (jiraClient s) PUT (''/issue/'' @ k) []
         (Some (literal [(''fields'', map_option JObj (update_fields upd))]))) = Inl e \<longrightarrow>
      updateIssue nt k upd s =
        (Inl (handleError (AxiosErr e)),
         s\<lparr> sent := sent s @
                [build_request (jiraClient s) PUT (''/issue/'' @ k) []
                   (Some (literal [(''fields'', map_option JObj (update_fields upd))]))] \<rparr>)) \<and>
   (transitions_get nt (sent s)
      (build_request (jiraClient s) GET (''/issue/'' @ k @ ''/transitions'') [] None) = Inl e \<longrightarrow>
      getTransitions nt k s =
        (Inl (handleError (AxiosErr e)),
         s\<lparr> sent := sent s @
                [build_request (jiraClient s) GET (''/issue/'' @ k @ ''/transitions'') [] None] \<rparr>)) \<and>
   (transitions_post nt (sent s)
      (build_request (jiraClient s) POST (''/issue/'' @ k @ ''/transitions'') []
         (Some (transition_request_json tr))) = Inl e \<longrightarrow>
      transitionIssue nt k tr s =
        (Inl (handleError (AxiosErr e)),
         s\<lparr> sent := sent s @
                [build_request (jiraClient s) POST (''/issue/'' @ k @ ''/transitions'') []
                   (Some (transition_request_json tr))] \<rparr>)) \<and>
   (comment_get nt (sent s)
      (build_request (jiraClient s) GET (''/issue/'' @ k @ ''/comment'') [] None) = Inl e \<longrightarrow>
      getComments nt k s =
        (Inl (handleError (AxiosErr e)),
         s\<lparr> sent := sent s @
                [build_request (jiraClient s) GET (''/issue/'' @ k @ ''/comment'') [] None] \<rparr>)) \<and>
   (comment_post nt (sent s)
      (build_request (jiraClient s) POST (''/issue/'' @ k @ ''/comment'') []
         (Some (comment_request_json cm))) = Inl e \<longrightarrow>
      addComment nt k cm s =
        (Inl (handleError (AxiosErr e)),
         s\<lparr> sent := sent s @
                [build_request (jiraClient s) POST (''/issue/'' @ k @ ''/comment'') []
                   (Some (comment_request_json cm))] \<rparr>)) \<and>
   (issue_post nt (sent s)
      (build_request (jiraClient s) POST ''/issue'' []
         (Some (JObj [(''fields'', JObj (create_fields request))]))) = Inl e \<longrightarrow>
      createIssue nt request s =
        (Inl (handleError (AxiosErr e)),
         s\<lparr> sent := sent s @
                [build_request (jiraClient s) POST ''/issue'' []
                   (Some (JObj [(''fields'', JObj (create_fields request))]))] \<rparr>)) \<and>
   (\<forall>c. issue_post nt (sent s)
          (build_request (jiraClient s) POST ''/issue'' []
             (Some (JObj [(''fields'', JObj (create_fields request))]))) = Inr c \<and>
        issue_get nt
          (sent s @ [build_request (jiraClient s) POST ''/issue'' []
                       (Some (JObj [(''fields'', JObj (create_fields request))]))])
          (build_request (jiraClient s) GET (''/issue/'' @ created_key c) [] None) = Inl e \<longrightarrow>
      createIssue nt request s =
        (Inl (handleError (AxiosErr e)),
         s\<lparr> sent := sent s @
                [build_request (jiraClient s) POST ''/issue'' []
                   (Some (JObj [(''fields'', JObj (create_fields request))])),
                 build_request (jiraClient s) GET (''/issue/'' @ created_key c) [] None] \<rparr>))"
proof (intro conjI allI impI)
  fix r d
  assume "response e = Some r \<and> response_data r = Some d"
  then show "handleError (AxiosErr e) =
        Error (''Jira API Error ('' @ string_of_nat (response_status r) @ ''): '' @
               join '', '' ((case errorMessages d of None \<Rightarrow> [] | Some ms \<Rightarrow> ms) @
                            map (\<lambda>(key, v). key @ '': '' @ v)
                              (case errors d of None \<Rightarrow> [] | Some es \<Rightarrow> es)))"
    by (simp add: handleError_with_body)
next
  assume "response e = None \<or> (\<exists>r. response e = Some r \<and> response_data r = None)"
  then show "handleError (AxiosErr e) = Error (''Jira API Error: '' @ message e)"
    by (rule handleError_without_body)
qed (simp_all add: searchIssues_run getIssue_run updateIssue_run getTransitions_run
       transitionIssue_run getComments_run addComment_run createIssue_run Let_def issue_params_def)

theorem facade_error_conversion_witness:
  "getIssue echo_net ''PROJ-9'' None s0 =
     (Inl (Error ''Jira API Error (404): Issue does not exist''),
      s0\<lparr> sent := [build_request example_client GET ''/issue/PROJ-9'' [] None] \<rparr>)"
proof -
  have ans: "issue_get echo_net (sent s0)
          (build_request (jiraClient s0) GET (''/issue/'' @ ''PROJ-9'') (issue_params None) None) =
        Inl not_found"
    by (simp add: echo_net_def stored_issue_def s0_def)
  have body: "response not_found =
                Some \<lparr> response_status = 404,
                       response_data = Some \<lparr> errorMessages = Some [''Issue does not exist''],
                                               errors = Some [] \<rparr> \<rparr>"
    by (simp add: not_found_def)
  from facade_error_conversion [where e = not_found and nt = echo_net and s = s0
      and k = "''PROJ-9''" and flds = None] ans body
  show ?thesis
    by (simp add: s0_def issue_params_def string_of_nat.simps digit_def)
qed

text \<open>The claim as written fails on a transport failure: there is no response, and the
  message carries the text of the transport error instead of a status.\<close>

theorem network_failure_message_has_no_status:
  "response network_error = None \<and>
   fst (searchIssues offline ''project = PROJ'' None None None s0) =
     Inl (Error ''Jira API Error: Network Error'')"
  by (simp add: searchIssues_run offline_def handleError_def network_error_def)

section \<open>The dispatcher\<close>

lemma switch_unknown:
  "name \<notin> set tool_names \<Longrightarrow> switch_name nt name args s = (Inl (Error (''Unknown tool: '' @ name)), s)"
  by (simp add: switch_name_def tool_names_def throw_def)

text \<open>
  Claim C4. The dispatcher selects the handler by the tool name: each of the eight
  announced names runs its own handler on the arguments. A name that is not announced
  throws \<^verbatim>\<open>Unknown tool: <name>\<close>, which the dispatcher answers as an error envelope.
  When the selected handler returns an envelope, the dispatcher returns that envelope
  unchanged. Whatever is thrown inside the \<^verbatim>\<open>try\<close> block, a plain error or an axios error,
  is answered as the envelope with \<^verbatim>\<open>isError: true\<close> and the payload
  \<^verbatim>\<open>{ error: true, message }\<close>. The dispatcher is a total function into envelopes, so
  no call ends in an exception.
\<close>

theorem dispatcher_routes_and_catches:
  "switch_name nt ''jira_search'' args = handleSearchIssues nt (as_SearchIssuesArgs args) \<and>
   switch_name nt ''jira_get_issue'' args = handleGetIssue nt (as_GetIssueArgs args) \<and>
   switch_name nt ''jira_create_issue'' args = handleCreateIssue nt (as_CreateIssueArgs args) \<and>
   switch_name nt ''jira_update_issue'' args = handleUpdateIssue nt (as_UpdateIssueArgs args) \<and>
   switch_name nt ''jira_get_transitions'' args = handleGetTransitions nt (as_GetTransitionsArgs args) \<and>
   switch_name nt ''jira_transition_issue'' args = handleTransitionIssue nt (as_TransitionIssueArgs args) \<and>
   switch_name nt ''jira_get_comments'' args = handleGetComments nt (as_GetCommentsArgs args) \<and>
   switch_name nt ''jira_add_comment'' args = handleAddComment nt (as_AddCommentArgs args) \<and>
   (name \<notin> set tool_names \<longrightarrow>
      switch_name nt name args s = (Inl (Error (''Unknown tool: '' @ name)), s) \<and>
      CallToolRequest_handler nt name args s =
        (\<lparr> content = [\<lparr> content_type = ''text'',
                          content_text = JSON_stringify (JObj [(''error'', JBool True),
                                                               (''message'', JStr (''Unknown tool: '' @ name))]) \<rparr>],
            isError = Some True \<rparr>, s)) \<and>
   (\<forall>result s'. switch_name nt name args s = (Inr result, s') \<longrightarrow>
      CallToolRequest_handler nt name args s = (result, s')) \<and>
   (\<forall>m s'. switch_name nt name args s = (Inl (Error m), s') \<longrightarrow>
      CallToolRequest_handler nt name args s =
        (\<lparr> content = [\<lparr> content_type = ''text'',
                          content_text = JSON_stringify (JObj [(''error'', JBool True), (''message'', JStr m)]) \<rparr>],
            isError = Some True \<rparr>, s')) \<and>
   (\<forall>e s'. switch_name nt name args s = (Inl (AxiosErr e), s') \<longrightarrow>
      CallToolRequest_handler nt name args s =
        (\<lparr> content = [\<lparr> content_type = ''text'',
                          content_text = JSON_stringify (JObj [(''error'', JBool True),
                                                               (''message'', JStr (message e))]) \<rparr>],
            isError = Some True \<rparr>, s'))"
proof (intro conjI allI impI)
  assume "name \<notin> set tool_names"
  then show "switch_name nt name args s = (Inl (Error (''Unknown tool: '' @ name)), s)"
    by (rule switch_unknown)
next
  assume "name \<notin> set tool_names"
  then show "CallToolRequest_handler nt name args s =
        (\<lparr> content = [\<lparr> content_type = ''text'',
                          content_text = JSON_stringify (JObj [(''error'', JBool True),
                                                               (''message'', JStr (''Unknown tool: '' @ name))]) \<rparr>],
            isError = Some True \<rparr>, s)"
    by (simp add: CallToolRequest_handler_def switch_unknown error_result_def errorMessage_def)
qed (simp_all add: switch_name_def CallToolRequest_handler_def error_result_def errorMessage_def)

theorem dispatcher_routes_and_catches_witness:
  "CallToolRequest_handler offline ''jira_delete_issue'' (GetIssue get_args0) s0 =
     (\<lparr> content = [\<lparr> content_type = ''text'',
                       content_text = JSON_stringify (JObj [(''error'', JBool True),
                                                            (''message'', JStr ''Unknown tool: jira_delete_issue'')]) \<rparr>],
         isError = Some True \<rparr>, s0) \<and>
   fst (CallToolRequest_handler offline ''jira_get_issue'' (GetIssue get_args0) s0) =
     \<lparr> content = [\<lparr> content_type = ''text'',
                      content_text = JSON_stringify (JObj [(''error'', JBool True),
                                                           (''message'', JStr ''Jira API Error: Network Error'')]) \<rparr>],
        isError = Some True \<rparr>"
proof -
  have unknown: "''jira_delete_issue'' \<notin> set tool_names"
    by (simp add: tool_names_def)
  have fails: "switch_name offline ''jira_get_issue'' (GetIssue get_args0) s0 =
                 (Inl (Error ''Jira API Error: Network Error''),
                  s0\<lparr> sent := [build_request example_client GET ''/issue/PROJ-1'' [] None] \<rparr>)"
    by (simp add: switch_name_def handleGetIssue_def await_def getIssue_run offline_def s0_def
          get_args0_def handleError_def network_error_def issue_params_def)
  from dispatcher_routes_and_catches
         [where nt = offline and name = "''jira_delete_issue''" and args = "GetIssue get_args0" and s = s0]
       unknown
  have a: "CallToolRequest_handler offline ''jira_delete_issue'' (GetIssue get_args0) s0 =
     (\<lparr> content = [\<lparr> content_type = ''text'',
                       content_text = JSON_stringify (JObj [(''error'', JBool True),
                                                            (''message'', JStr ''Unknown tool: jira_delete_issue'')]) \<rparr>],
         isError = Some True \<rparr>, s0)"
    by simp
  from dispatcher_routes_and_catches
         [where nt = offline and name = "''jira_get_issue''" and args = "GetIssue get_args0" and s = s0]
       fails
  have b: "fst (CallToolRequest_handler offline ''jira_get_issue'' (GetIssue get_args0) s0) =
     \<lparr> content = [\<lparr> content_type = ''text'',
                      content_text = JSON_stringify (JObj [(''error'', JBool True),
                                                           (''message'', JStr ''Jira API Error: Network Error'')]) \<rparr>],
        isError = Some True \<rparr>"
    by simp
  from a b show ?thesis by simp
qed

section \<open>No state between calls\<close>

lemma keeps_clientD: "keeps_client m \<Longrightarrow> m s = (r, s') \<Longrightarrow> jiraClient s' = jiraClient s"
  unfolding keeps_client_def by (metis snd_conv)

lemma client_onlyD: "client_only m \<Longrightarrow> jiraClient s1 = jiraClient s2 \<Longrightarrow> fst (m s1) = fst (m s2)"
  unfolding client_only_def by blast

lemma keeps_return: "keeps_client (return x)"
  by (simp add: keeps_client_def return_def)

lemma keeps_throw: "keeps_client (throw e)"
  by (simp add: keeps_client_def throw_def)

lemma keeps_await:
  assumes "keeps_client m" and "\<And>x. keeps_client (f x)"
  shows "keeps_client (await m f)"
  unfolding keeps_client_def
proof
  fix s
  obtain r s' where ms: "m s = (r, s')" by (cases "m s")
  with assms(1) have c: "jiraClient s' = jiraClient s"
    by (rule keeps_clientD)
  show "jiraClient (snd (await m f s)) = jiraClient s"
  proof (cases r)
    case (Inl e)
    with ms c show ?thesis by (simp add: await_def)
  next
    case (Inr x)
    from assms(2) [of x] have "jiraClient (snd (f x s')) = jiraClient s'"
      by (simp add: keeps_client_def)
    with ms c Inr show ?thesis by (simp add: await_def)
  qed
qed

lemma keeps_try_catch:
  assumes "keeps_client m"
  shows "keeps_client (try_catch m)"
  unfolding keeps_client_def
proof
  fix s
  obtain r s' where ms: "m s = (r, s')" by (cases "m s")
  with assms have "jiraClient s' = jiraClient s"
    by (rule keeps_clientD)
  with ms show "jiraClient (snd (try_catch m s)) = jiraClient s"
    by (cases r) (simp_all add: try_catch_def)
qed

lemma keeps_axios: "keeps_client (axios_request ep m path ps d)"
  by (simp add: keeps_client_def axios_request_def Let_def split: sum.splits)

lemmas keeps_intros = keeps_return keeps_throw keeps_await keeps_try_catch keeps_axios

lemma keeps_facade:
  "keeps_client (searchIssues nt q mr tok flds)"
  "keeps_client (getIssue nt k flds)"
  "keeps_client (createIssue nt request)"
  "keeps_client (updateIssue nt k upd)"
  "keeps_client (getTransitions nt k)"
  "keeps_client (transitionIssue nt k tr)"
  "keeps_client (getComments nt k)"
  "keeps_client (addComment nt k cm)"
  unfolding searchIssues_def getIssue_def createIssue_def updateIssue_def getTransitions_def
    transitionIssue_def getComments_def addComment_def
  by (intro keeps_intros)+

lemma keeps_handlers:
  "keeps_client (handleSearchIssues nt a1)"
  "keeps_client (handleGetIssue nt a2)"
  "keeps_client (handleCreateIssue nt a3)"
  "keeps_client (handleUpdateIssue nt a4)"
  "keeps_client (handleGetTransitions nt a5)"
  "keeps_client (handleTransitionIssue nt a6)"
  "keeps_client (handleGetComments nt a7)"
  "keeps_client (handleAddComment nt a8)"
  unfolding handleSearchIssues_def handleGetIssue_def handleCreateIssue_def handleUpdateIssue_def
    handleGetTransitions_def handleTransitionIssue_def handleGetComments_def handleAddComment_def
  by (intro keeps_intros keeps_facade)+

lemma keeps_switch: "keeps_client (switch_name nt name args)"
  by (simp add: switch_name_def keeps_handlers keeps_throw)

lemma keeps_dispatcher: "jiraClient (snd (CallToolRequest_handler nt name args s)) = jiraClient s"
proof -
  obtain r s' where sw: "switch_name nt name args s = (r, s')"
    by (cases "switch_name nt name args s")
  with keeps_switch [of nt name args] have "jiraClient s' = jiraClient s"
    by (rule keeps_clientD)
  with sw show ?thesis
    by (cases r) (simp_all add: CallToolRequest_handler_def)
qed

lemma only_return: "client_only (return x)"
  by (simp add: client_only_def return_def)

lemma only_throw: "client_only (throw e)"
  by (simp add: client_only_def throw_def)

lemma only_await:
  assumes "client_only m" and "keeps_client m" and "\<And>x. client_only (f x)"
  shows "client_only (await m f)"
  unfolding client_only_def
proof (intro allI impI)
  fix s1 s2 :: state
  assume eq: "jiraClient s1 = jiraClient s2"
  obtain r1 t1 where m1: "m s1 = (r1, t1)" by (cases "m s1")
  obtain r2 t2 where m2: "m s2 = (r2, t2)" by (cases "m s2")
  from client_onlyD [OF assms(1) eq] m1 m2 have r: "r2 = r1"
    by simp
  from assms(2) m1 have c1: "jiraClient t1 = jiraClient s1"
    by (rule keeps_clientD)
  from assms(2) m2 have c2: "jiraClient t2 = jiraClient s2"
    by (rule keeps_clientD)
  show "fst (await m f s1) = fst (await m f s2)"
  proof (cases r1)
    case (Inl e)
    with m1 m2 r show ?thesis by (simp add: await_def)
  next
    case (Inr x)
    from c1 c2 eq have "jiraClient t1 = jiraClient t2" by simp
    with assms(3) [of x] have "fst (f x t1) = fst (f x t2)"
      by (rule client_onlyD)
    with m1 m2 r Inr show ?thesis by (simp add: await_def)
  qed
qed

lemma only_try_catch:
  assumes "client_only m"
  shows "client_only (try_catch m)"
  unfolding client_only_def
proof (intro allI impI)
  fix s1 s2 :: state
  assume eq: "jiraClient s1 = jiraClient s2"
  obtain r1 t1 where m1: "m s1 = (r1, t1)" by (cases "m s1")
  obtain r2 t2 where m2: "m s2 = (r2, t2)" by (cases "m s2")
  from client_onlyD [OF assms eq] m1 m2 have "r2 = r1" by simp
  with m1 m2 show "fst (try_catch m s1) = fst (try_catch m s2)"
    by (cases r1) (simp_all add: try_catch_def)
qed

lemma only_axios: "history_free_ep ep \<Longrightarrow> client_only (axios_request ep m path ps d)"
  unfolding client_only_def history_free_ep_def
proof (intro allI impI)
  fix s1 s2 :: state
  assume hf: "\<forall>h h' r. ep h r = ep h' r" and eq: "jiraClient s1 = jiraClient s2"
  from hf have "ep (sent s1) (build_request (jiraClient s2) m path ps d) =
                ep (sent s2) (build_request (jiraClient s2) m path ps d)"
    by blast
  with eq show "fst (axios_request ep m path ps d s1) = fst (axios_request ep m path ps d s2)"
    by (simp add: axios_request_def Let_def split: sum.splits)
qed

lemmas only_intros = only_return only_throw only_await only_try_catch only_axios

lemma only_facade:
  assumes "history_free nt"
  shows "client_only (searchIssues nt q mr tok flds)"
    and "client_only (getIssue nt k flds)"
    and "client_only (createIssue nt request)"
    and "client_only (updateIssue nt k upd)"
    and "client_only (getTransitions nt k)"
    and "client_only (transitionIssue nt k tr)"
    and "client_only (getComments nt k)"
    and "client_only (addComment nt k cm)"
proof -
  from assms have ep:
    "history_free_ep (search_jql nt)" "history_free_ep (issue_get nt)"
    "history_free_ep (issue_post nt)" "history_free_ep (issue_put nt)"
    "history_free_ep (transitions_get nt)" "history_free_ep (transitions_post nt)"
    "history_free_ep (comment_get nt)" "history_free_ep (comment_post nt)"
    by (simp_all add: history_free_def)
  show "client_only (searchIssues nt q mr tok flds)"
    unfolding searchIssues_def by (intro only_intros ep)
  show g: "client_only (getIssue nt k flds)" for k flds
    unfolding getIssue_def by (intro only_intros ep)
  show "client_only (createIssue nt request)"
    unfolding createIssue_def by (intro only_intros ep keeps_intros g)
  show "client_only (updateIssue nt k upd)"
    unfolding updateIssue_def by (intro only_intros ep)
  show "client_only (getTransitions nt k)"
    unfolding getTransitions_def by (intro only_intros ep keeps_intros)
  show "client_only (transitionIssue nt k tr)"
    unfolding transitionIssue_def by (intro only_intros ep)
  show "client_only (getComments nt k)"
    unfolding getComments_def by (intro only_intros ep keeps_intros)
  show "client_only (addComment nt k cm)"
    unfolding addComment_def by (intro only_intros ep)
qed

lemma only_handlers:
  assumes "history_free nt"
  shows "client_only (handleSearchIssues nt a1)"
    and "client_only (handleGetIssue nt a2)"
    and "client_only (handleCreateIssue nt a3)"
    and "client_only (handleUpdateIssue nt a4)"
    and "client_only (handleGetTransitions nt a5)"
    and "client_only (handleTransitionIssue nt a6)"
    and "client_only (handleGetComments nt a7)"
    and "client_only (handleAddComment nt a8)"
  unfolding handleSearchIssues_def handleGetIssue_def handleCreateIssue_def handleUpdateIssue_def
    handleGetTransitions_def handleTransitionIssue_def handleGetComments_def handleAddComment_def
  by (intro only_intros only_facade [OF assms] keeps_facade)+

lemma only_switch: "history_free nt \<Longrightarrow> client_only (switch_name nt name args)"
  by (simp add: switch_name_def only_handlers only_throw)

lemma only_dispatcher:
  assumes "history_free nt" and "jiraClient s1 = jiraClient s2"
  shows "fst (CallToolRequest_handler nt name args s1) = fst (CallToolRequest_handler nt name args s2)"
proof -
  obtain r1 t1 where m1: "switch_name nt name args s1 = (r1, t1)"
    by (cases "switch_name nt name args s1")
  obtain r2 t2 where m2: "switch_name nt name args s2 = (r2, t2)"
    by (cases "switch_name nt name args s2")
  from client_onlyD [OF only_switch [OF assms(1)] assms(2), of name args] m1 m2
  have "r2 = r1" by simp
  with m1 m2 show ?thesis
    by (cases r1) (simp_all add: CallToolRequest_handler_def)
qed

lemma token_net_history_free: "history_free token_net"
  by (simp add: history_free_def history_free_ep_def token_net_def offline_def)

text \<open>
  Claim C9. The state of the process is the client built once by the constructor; \<open>sent\<close>
  is the record the model keeps of what was put on the wire, not a variable of the
  program. No method of the client changes the client, and neither does a call through
  the dispatcher, whatever the tool, the arguments and the answers. Hence calls are
  independent: against a remote side whose answers depend on the request alone, the
  envelope returned for a call is the same whether or not another call ran before it.
\<close>

theorem no_state_between_calls:
  "jiraClient (snd (searchIssues nt q mr tok flds s)) = jiraClient s \<and>
   jiraClient (snd (getIssue nt k flds s)) = jiraClient s \<and>
   jiraClient (snd (createIssue nt request s)) = jiraClient s \<and>
   jiraClient (snd (updateIssue nt k upd s)) = jiraClient s \<and>
   jiraClient (snd (getTransitions nt k s)) = jiraClient s \<and>
   jiraClient (snd (transitionIssue nt k tr s)) = jiraClient s \<and>
   jiraClient (snd (getComments nt k s)) = jiraClient s \<and>
   jiraClient (snd (addComment nt k cm s)) = jiraClient s \<and>
   jiraClient (snd (CallToolRequest_handler nt name args s)) = jiraClient s \<and>
   (history_free nt \<longrightarrow>
      fst (CallToolRequest_handler nt name' args' (snd (CallToolRequest_handler nt name args s))) =
      fst (CallToolRequest_handler nt name' args' s))"
proof -
  have frame: "jiraClient (snd (m s)) = jiraClient s" if "keeps_client m" for m :: "'x io"
    using that by (simp add: keeps_client_def)
  have "fst (CallToolRequest_handler nt name' args' (snd (CallToolRequest_handler nt name args s))) =
        fst (CallToolRequest_handler nt name' args' s)" if "history_free nt"
    using that keeps_dispatcher [of nt name args s] by (rule only_dispatcher)
  then show ?thesis
    by (simp add: frame keeps_facade keeps_dispatcher)
qed

theorem no_state_between_calls_witness:
  "jiraClient (snd (CallToolRequest_handler token_net ''jira_search'' (SearchIssues search_args0) s0)) =
     example_client \<and>
   fst (CallToolRequest_handler token_net ''jira_search'' (SearchIssues search_args0)
          (snd (CallToolRequest_handler token_net ''jira_get_issue'' (GetIssue get_args0) s0))) =
   fst (CallToolRequest_handler token_net ''jira_search'' (SearchIssues search_args0) s0)"
  using no_state_between_calls
          [where nt = token_net and s = s0 and name = "''jira_search''"
             and args = "SearchIssues search_args0"]
        no_state_between_calls
          [where nt = token_net and s = s0 and name = "''jira_get_issue''"
             and args = "GetIssue get_args0" and name' = "''jira_search''"
             and args' = "SearchIssues search_args0"]
        token_net_history_free
  by (simp add: s0_def)

end
